theory Spec2Isabelle
  imports Complex_Main "HOL-Library.While_Combinator"
begin

section \<open>Python computations\<close>

text \<open>
  The program is Python. A call either returns a value, raises an exception, or does
  not return. A computation is therefore a value of type \<open>(error + 'a) option\<close>:
  \<open>Some (Inr x)\<close> is a normal return of \<open>x\<close>, \<open>Some (Inl e)\<close> is the exception \<open>e\<close>
  propagating to the caller, and \<open>None\<close> is a call that does not return (a loop that
  runs forever, or a recursion that was given too little fuel in the model).
\<close>

datatype error =
    AttributeError
  | ValueError
  | TypeError
  | IndexError
  | ZeroDivisionError
  | AssertionError

type_synonym 'a comp = "(error + 'a) option"

definition ret :: "'a \<Rightarrow> 'a comp" where
  "ret x = Some (Inr x)"

definition raise :: "error \<Rightarrow> 'a comp" where
  "raise e = Some (Inl e)"

fun bind :: "'a comp \<Rightarrow> ('a \<Rightarrow> 'b comp) \<Rightarrow> 'b comp" where
  "bind None f = None"
| "bind (Some (Inl e)) f = Some (Inl e)"
| "bind (Some (Inr x)) f = f x"

section \<open>new.py: the game state and the class NMensMorris\<close>

type_synonym pos = "int \<times> int"

text \<open>
  \<^verbatim>\<open>GameState = namedtuple('GameState', 'to_move, utility, board, moves')\<close>.
  The board is a dict from positions to the mark of the player on it; \<open>moves\<close> is the
  collection of moves still open (a list; the initial state's empty dict has no keys
  and is the empty list).
\<close>

record GameState =
  state_to_move :: string
  state_utility :: int
  state_board :: "pos \<rightharpoonup> string"
  state_moves :: "pos list"

text \<open>
  Attribute access on the named tuple. The tuple has exactly the four fields of its
  declaration; any other attribute name raises \<open>AttributeError\<close>.
\<close>

datatype attr =
    AStr string
  | AInt int
  | ADict "pos \<rightharpoonup> string"
  | AList "pos list"

definition GameState_getattr :: "GameState \<Rightarrow> string \<Rightarrow> attr comp" where
  "GameState_getattr state name =
     (if name = ''to_move'' then ret (AStr (state_to_move state))
      else if name = ''utility'' then ret (AInt (state_utility state))
      else if name = ''board'' then ret (ADict (state_board state))
      else if name = ''moves'' then ret (AList (state_moves state))
      else raise AttributeError)"

text \<open>The object \<open>self\<close> of class NMensMorris: \<open>h\<close>, \<open>v\<close>, \<open>k\<close> and \<open>initial\<close>.\<close>

record NMensMorris =
  nmm_h :: int
  nmm_v :: int
  nmm_k :: int
  nmm_initial :: GameState

text \<open>\<^verbatim>\<open>__init__(self, h=3, v=3, k=3)\<close>: the initial state has \<open>moves={}\<close>.\<close>

definition NMensMorris_init :: "int \<Rightarrow> int \<Rightarrow> int \<Rightarrow> NMensMorris" where
  "NMensMorris_init h v k =
     \<lparr>nmm_h = h, nmm_v = v, nmm_k = k,
      nmm_initial = \<lparr>state_to_move = ''X'', state_utility = 0,
                     state_board = Map.empty, state_moves = []\<rparr>\<rparr>"

definition NMensMorris_default :: NMensMorris where
  "NMensMorris_default = NMensMorris_init 3 3 3"

definition NMensMorris_actions :: "GameState \<Rightarrow> pos list" where
  "NMensMorris_actions state = state_moves state"

text \<open>
  \<open>k_in_row\<close>: two while loops walk from \<open>move\<close> in direction \<open>delta_x_y\<close> and back,
  counting the cells that hold \<open>player\<close>. A loop that never leaves the player's cells
  does not return.
\<close>

definition k_in_row ::
  "NMensMorris \<Rightarrow> (pos \<rightharpoonup> string) \<Rightarrow> pos \<Rightarrow> string \<Rightarrow> int \<times> int \<Rightarrow> bool option" where
  "k_in_row self brd mv player delta_x_y =
     (case delta_x_y of (delta_x, delta_y) \<Rightarrow>
        (case while_option (\<lambda>(n, x, y). brd (x, y) = Some player)
                (\<lambda>(n, x, y). (n + 1, x + delta_x, y + delta_y)) (0::int, fst mv, snd mv) of
           None \<Rightarrow> None
         | Some (n, _, _) \<Rightarrow>
             (case while_option (\<lambda>(n, x, y). brd (x, y) = Some player)
                     (\<lambda>(n, x, y). (n + 1, x - delta_x, y - delta_y)) (n, fst mv, snd mv) of
                None \<Rightarrow> None
              | Some (n', _, _) \<Rightarrow> Some (nmm_k self \<le> n' - 1))))"

text \<open>\<open>compute_utility\<close>: the four directions, tried in order; \<open>or\<close> stops at the first hit.\<close>

definition compute_utility ::
  "NMensMorris \<Rightarrow> (pos \<rightharpoonup> string) \<Rightarrow> pos \<Rightarrow> string \<Rightarrow> int option" where
  "compute_utility self brd mv player =
     (let won = (if player = ''X'' then 1 else - 1) in
      case k_in_row self brd mv player (0, 1) of None \<Rightarrow> None
      | Some True \<Rightarrow> Some won
      | Some False \<Rightarrow>
     (case k_in_row self brd mv player (1, 0) of None \<Rightarrow> None
      | Some True \<Rightarrow> Some won
      | Some False \<Rightarrow>
     (case k_in_row self brd mv player (1, - 1) of None \<Rightarrow> None
      | Some True \<Rightarrow> Some won
      | Some False \<Rightarrow>
     (case k_in_row self brd mv player (1, 1) of None \<Rightarrow> None
      | Some True \<Rightarrow> Some won
      | Some False \<Rightarrow> Some 0))))"

text \<open>
  \<open>result\<close>. A move that is not among \<open>state.moves\<close> returns the state itself
  ("Illegal move has no effect"). Otherwise the first statement reads \<open>state.game\<close>;
  the rest of the body works on the dict that attribute holds.
\<close>

definition NMensMorris_result :: "NMensMorris \<Rightarrow> GameState \<Rightarrow> pos \<Rightarrow> GameState comp" where
  "NMensMorris_result self state mv =
     (if mv \<notin> set (state_moves state) then ret state
      else bind (GameState_getattr state ''game'') (\<lambda>a.
        case a of
          ADict d \<Rightarrow>
            (let brd = d(mv \<mapsto> state_to_move state);
                 mvs = remove1 mv (state_moves state)
             in case compute_utility self brd mv (state_to_move state) of
                  None \<Rightarrow> None
                | Some u \<Rightarrow>
                    ret \<lparr>state_to_move = (if state_to_move state = ''X'' then ''O'' else ''X''),
                         state_utility = u, state_board = brd, state_moves = mvs\<rparr>)
        | AList l \<Rightarrow> raise TypeError
        | _ \<Rightarrow> raise AttributeError))"

definition NMensMorris_utility :: "GameState \<Rightarrow> string \<Rightarrow> int" where
  "NMensMorris_utility state player =
     (if player = ''X'' then state_utility state else - state_utility state)"

definition NMensMorris_terminal_test :: "GameState \<Rightarrow> bool" where
  "NMensMorris_terminal_test state =
     (state_utility state \<noteq> 0 \<or> length (state_moves state) = 0)"

section \<open>new.py: the Game interface and the search strategies\<close>

text \<open>
  Values compared by the searches: a utility (an integer), or one of the two bounds
  \<^verbatim>\<open>-np.inf\<close> and \<^verbatim>\<open>np.inf\<close> the code starts its running extrema with.
\<close>

datatype ext = MInf | Fin int | PInf

instantiation ext :: linorder
begin

fun less_eq_ext :: "ext \<Rightarrow> ext \<Rightarrow> bool" where
  "less_eq_ext MInf y = True"
| "less_eq_ext (Fin a) MInf = False"
| "less_eq_ext (Fin a) (Fin b) = (a \<le> b)"
| "less_eq_ext (Fin a) PInf = True"
| "less_eq_ext PInf PInf = True"
| "less_eq_ext PInf y = False"

definition less_ext :: "ext \<Rightarrow> ext \<Rightarrow> bool" where
  "less_ext x y = (x \<le> y \<and> \<not> y \<le> x)"

instance
proof
  fix x y z :: ext
  show "(x < y) = (x \<le> y \<and> \<not> y \<le> x)"
    by (simp add: less_ext_def)
  show "x \<le> x"
    by (cases x) simp_all
  show "x \<le> y \<Longrightarrow> y \<le> z \<Longrightarrow> x \<le> z"
    by (cases x; cases y; cases z) simp_all
  show "x \<le> y \<Longrightarrow> y \<le> x \<Longrightarrow> x = y"
    by (cases x; cases y) simp_all
  show "x \<le> y \<or> y \<le> x"
    by (cases x; cases y) auto
qed

end

text \<open>
  The class \<open>Game\<close>: the methods the searches call. \<open>result\<close> is a computation, since
  a game's \<open>result\<close> may raise; the other methods are queries.
\<close>

record ('s, 'a) game =
  actions :: "'s \<Rightarrow> 'a list"
  result :: "'s \<Rightarrow> 'a \<Rightarrow> 's comp"
  utility :: "'s \<Rightarrow> string \<Rightarrow> int"
  terminal_test :: "'s \<Rightarrow> bool"
  to_move :: "'s \<Rightarrow> string"

text \<open>The defaults of the base class: \<open>terminal_test\<close> is \<open>not self.actions(state)\<close>.\<close>

definition Game_terminal_test :: "('s \<Rightarrow> 'a list) \<Rightarrow> 's \<Rightarrow> bool" where
  "Game_terminal_test acts state = (acts state = [])"

text \<open>
  NMensMorris as a game: its own \<open>actions\<close>, \<open>result\<close>, \<open>utility\<close> and
  \<open>terminal_test\<close>, and the inherited \<open>to_move\<close> (\<open>state.to_move\<close>).
\<close>

definition NMensMorris_game :: "NMensMorris \<Rightarrow> (GameState, pos) game" where
  "NMensMorris_game self =
     \<lparr>actions = NMensMorris_actions,
      result = NMensMorris_result self,
      utility = NMensMorris_utility,
      terminal_test = NMensMorris_terminal_test,
      to_move = state_to_move\<rparr>"

subsection \<open>Python's max with a key\<close>

text \<open>
  \<open>max(xs, key=f)\<close> evaluates the key of each element in order and keeps the first
  element whose key is greatest (a later element replaces the kept one only when its
  key is strictly greater). On an empty sequence it raises \<open>ValueError\<close>, unless
  \<open>default\<close> is given.
\<close>

primrec max_key_loop ::
  "('k \<Rightarrow> 'k \<Rightarrow> bool) \<Rightarrow> ('a \<Rightarrow> 'k comp) \<Rightarrow> 'a list \<Rightarrow> 'a \<Rightarrow> 'k \<Rightarrow> 'a comp" where
  "max_key_loop gt key [] best bk = ret best"
| "max_key_loop gt key (a # as) best bk =
     bind (key a) (\<lambda>k. if gt k bk then max_key_loop gt key as a k
                         else max_key_loop gt key as best bk)"

definition py_max_key :: "('k \<Rightarrow> 'k \<Rightarrow> bool) \<Rightarrow> ('a \<Rightarrow> 'k comp) \<Rightarrow> 'a list \<Rightarrow> 'a comp" where
  "py_max_key gt key xs =
     (case xs of
        [] \<Rightarrow> raise ValueError
      | a # as \<Rightarrow> bind (key a) (\<lambda>k. max_key_loop gt key as a k))"

definition py_max_key_default ::
  "('k \<Rightarrow> 'k \<Rightarrow> bool) \<Rightarrow> ('a \<Rightarrow> 'k comp) \<Rightarrow> 'a list \<Rightarrow> 'a option comp" where
  "py_max_key_default gt key xs =
     (case xs of
        [] \<Rightarrow> ret None
      | a # as \<Rightarrow> bind (key a) (\<lambda>k. bind (max_key_loop gt key as a k) (\<lambda>b. ret (Some b))))"

subsection \<open>minmax_decision\<close>

text \<open>
  The loops \<open>for a in game.actions(state): v = max(v, ...)\<close> of \<open>max_value\<close> and
  \<open>min_value\<close>; \<open>f a\<close> is the value of the state action \<open>a\<close> leads to.
\<close>

primrec max_loop :: "('a \<Rightarrow> ext comp) \<Rightarrow> 'a list \<Rightarrow> ext \<Rightarrow> ext comp" where
  "max_loop f [] v = ret v"
| "max_loop f (a # as) v = bind (f a) (\<lambda>w. max_loop f as (max v w))"

primrec min_loop :: "('a \<Rightarrow> ext comp) \<Rightarrow> 'a list \<Rightarrow> ext \<Rightarrow> ext comp" where
  "min_loop f [] v = ret v"
| "min_loop f (a # as) v = bind (f a) (\<lambda>w. min_loop f as (min v w))"

text \<open>
  The recursion of \<open>max_value\<close> and \<open>min_value\<close> ends only at terminal states, so the
  model carries fuel: the number of plies the recursion may still descend. Without
  fuel left at a state that is not terminal, the call does not return.
\<close>

fun minmax_max_value ::
    "('s, 'a, 'z) game_scheme \<Rightarrow> string \<Rightarrow> nat \<Rightarrow> 's \<Rightarrow> ext comp"
  and minmax_min_value ::
    "('s, 'a, 'z) game_scheme \<Rightarrow> string \<Rightarrow> nat \<Rightarrow> 's \<Rightarrow> ext comp" where
  "minmax_max_value g player 0 state =
     (if terminal_test g state then ret (Fin (utility g state player)) else None)"
| "minmax_max_value g player (Suc n) state =
     (if terminal_test g state then ret (Fin (utility g state player))
      else max_loop (\<lambda>a. bind (result g state a) (minmax_min_value g player n))
             (actions g state) MInf)"
| "minmax_min_value g player 0 state =
     (if terminal_test g state then ret (Fin (utility g state player)) else None)"
| "minmax_min_value g player (Suc n) state =
     (if terminal_test g state then ret (Fin (utility g state player))
      else min_loop (\<lambda>a. bind (result g state a) (minmax_max_value g player n))
             (actions g state) PInf)"

definition minmax_decision :: "('s, 'a, 'z) game_scheme \<Rightarrow> nat \<Rightarrow> 's \<Rightarrow> 'a comp" where
  "minmax_decision g fuel state =
     (let player = to_move g state in
      py_max_key (\<lambda>k bk. bk < k)
        (\<lambda>a. bind (result g state a) (minmax_min_value g player fuel))
        (actions g state))"

subsection \<open>alpha_beta_search\<close>

text \<open>
  The loops of \<open>max_value(state, alpha, beta)\<close> and \<open>min_value(state, alpha, beta)\<close>:
  the running extremum \<open>v\<close>, the early return once \<open>v >= beta\<close> (resp. \<open>v <= alpha\<close>),
  and the update of \<open>alpha\<close> (resp. \<open>beta\<close>).
\<close>

fun ab_max_loop ::
  "('a \<Rightarrow> ext \<Rightarrow> ext \<Rightarrow> ext comp) \<Rightarrow> 'a list \<Rightarrow> ext \<Rightarrow> ext \<Rightarrow> ext \<Rightarrow> ext comp" where
  "ab_max_loop f [] alpha beta v = ret v"
| "ab_max_loop f (a # as) alpha beta v =
     bind (f a alpha beta) (\<lambda>w.
       if beta \<le> max v w then ret (max v w)
       else ab_max_loop f as (max alpha (max v w)) beta (max v w))"

fun ab_min_loop ::
  "('a \<Rightarrow> ext \<Rightarrow> ext \<Rightarrow> ext comp) \<Rightarrow> 'a list \<Rightarrow> ext \<Rightarrow> ext \<Rightarrow> ext \<Rightarrow> ext comp" where
  "ab_min_loop f [] alpha beta v = ret v"
| "ab_min_loop f (a # as) alpha beta v =
     bind (f a alpha beta) (\<lambda>w.
       if min v w \<le> alpha then ret (min v w)
       else ab_min_loop f as alpha (min beta (min v w)) (min v w))"

fun alpha_beta_max_value ::
    "('s, 'a, 'z) game_scheme \<Rightarrow> string \<Rightarrow> nat \<Rightarrow> 's \<Rightarrow> ext \<Rightarrow> ext \<Rightarrow> ext comp"
  and alpha_beta_min_value ::
    "('s, 'a, 'z) game_scheme \<Rightarrow> string \<Rightarrow> nat \<Rightarrow> 's \<Rightarrow> ext \<Rightarrow> ext \<Rightarrow> ext comp" where
  "alpha_beta_max_value g player 0 state alpha beta =
     (if terminal_test g state then ret (Fin (utility g state player)) else None)"
| "alpha_beta_max_value g player (Suc n) state alpha beta =
     (if terminal_test g state then ret (Fin (utility g state player))
      else ab_max_loop
             (\<lambda>a al be. bind (result g state a) (\<lambda>s. alpha_beta_min_value g player n s al be))
             (actions g state) alpha beta MInf)"
| "alpha_beta_min_value g player 0 state alpha beta =
     (if terminal_test g state then ret (Fin (utility g state player)) else None)"
| "alpha_beta_min_value g player (Suc n) state alpha beta =
     (if terminal_test g state then ret (Fin (utility g state player))
      else ab_min_loop
             (\<lambda>a al be. bind (result g state a) (\<lambda>s. alpha_beta_max_value g player n s al be))
             (actions g state) alpha beta PInf)"

text \<open>
  The body of the search: \<open>best_score\<close> and \<open>best_action\<close> start at \<open>-inf\<close> and \<open>None\<close>;
  an action replaces the best one only when its value is strictly greater.
\<close>

primrec ab_root_loop ::
  "('a \<Rightarrow> ext \<Rightarrow> ext comp) \<Rightarrow> 'a list \<Rightarrow> ext \<Rightarrow> 'a option \<Rightarrow> 'a option comp" where
  "ab_root_loop f [] best_score best_action = ret best_action"
| "ab_root_loop f (a # as) best_score best_action =
     bind (f a best_score) (\<lambda>v.
       if best_score < v then ab_root_loop f as v (Some a)
       else ab_root_loop f as best_score best_action)"

definition alpha_beta_search :: "('s, 'a, 'z) game_scheme \<Rightarrow> nat \<Rightarrow> 's \<Rightarrow> 'a option comp" where
  "alpha_beta_search g fuel state =
     (let player = to_move g state in
      ab_root_loop
        (\<lambda>a best_score. bind (result g state a)
                           (\<lambda>s. alpha_beta_min_value g player fuel s best_score PInf))
        (actions g state) MInf None)"

subsection \<open>alpha_beta_cutoff_search\<close>

fun cutoff_max_value ::
    "('s, 'a, 'z) game_scheme \<Rightarrow> ('s \<Rightarrow> int \<Rightarrow> bool) \<Rightarrow> ('s \<Rightarrow> int) \<Rightarrow> nat \<Rightarrow> 's \<Rightarrow>
     ext \<Rightarrow> ext \<Rightarrow> int \<Rightarrow> ext comp"
  and cutoff_min_value ::
    "('s, 'a, 'z) game_scheme \<Rightarrow> ('s \<Rightarrow> int \<Rightarrow> bool) \<Rightarrow> ('s \<Rightarrow> int) \<Rightarrow> nat \<Rightarrow> 's \<Rightarrow>
     ext \<Rightarrow> ext \<Rightarrow> int \<Rightarrow> ext comp" where
  "cutoff_max_value g cutoff_test eval_fn 0 state alpha beta depth =
     (if cutoff_test state depth then ret (Fin (eval_fn state)) else None)"
| "cutoff_max_value g cutoff_test eval_fn (Suc n) state alpha beta depth =
     (if cutoff_test state depth then ret (Fin (eval_fn state))
      else ab_max_loop
             (\<lambda>a al be. bind (result g state a)
                (\<lambda>s. cutoff_min_value g cutoff_test eval_fn n s al be (depth + 1)))
             (actions g state) alpha beta MInf)"
| "cutoff_min_value g cutoff_test eval_fn 0 state alpha beta depth =
     (if cutoff_test state depth then ret (Fin (eval_fn state)) else None)"
| "cutoff_min_value g cutoff_test eval_fn (Suc n) state alpha beta depth =
     (if cutoff_test state depth then ret (Fin (eval_fn state))
      else ab_min_loop
             (\<lambda>a al be. bind (result g state a)
                (\<lambda>s. cutoff_max_value g cutoff_test eval_fn n s al be (depth + 1)))
             (actions g state) alpha beta PInf)"

text \<open>
  \<open>alpha_beta_cutoff_search(state, game, d=4, cutoff_test=None, eval_fn=None)\<close>: a
  missing \<open>cutoff_test\<close> cuts off beyond depth \<open>d\<close> or at a terminal state, a missing
  \<open>eval_fn\<close> is the utility for the player to move at the root.
\<close>

definition alpha_beta_cutoff_search ::
  "('s, 'a, 'z) game_scheme \<Rightarrow> nat \<Rightarrow> 's \<Rightarrow> int \<Rightarrow> ('s \<Rightarrow> int \<Rightarrow> bool) option \<Rightarrow>
   ('s \<Rightarrow> int) option \<Rightarrow> 'a option comp" where
  "alpha_beta_cutoff_search g fuel state d cutoff_test eval_fn =
     (let player = to_move g state;
          ct = (case cutoff_test of
                  Some c \<Rightarrow> c
                | None \<Rightarrow> (\<lambda>s depth. d < depth \<or> terminal_test g s));
          ev = (case eval_fn of
                  Some e \<Rightarrow> e
                | None \<Rightarrow> (\<lambda>s. utility g s player))
      in ab_root_loop
           (\<lambda>a best_score. bind (result g state a)
                              (\<lambda>s. cutoff_min_value g ct ev fuel s best_score PInf 1))
           (actions g state) MInf None)"

subsection \<open>expect_minmax\<close>

text \<open>
  A stochastic game adds \<open>chances\<close>, \<open>outcome\<close> and \<open>probability\<close>. The values of
  \<open>expect_minmax\<close> are Python numbers under arithmetic: a finite number (kept exact, as
  a rational), the two infinities, or the not-a-number that \<open>inf - inf\<close> and \<open>0 * inf\<close>
  give. A comparison with not-a-number is false.
\<close>

record ('s, 'a, 'c) stochastic_game = "('s, 'a) game" +
  chances :: "'s \<Rightarrow> 'c list"
  outcome :: "'s \<Rightarrow> 'c \<Rightarrow> 's"
  probability :: "'c \<Rightarrow> rat"

datatype pynum = NaN | NegInf | Num rat | PosInf

fun py_gt :: "pynum \<Rightarrow> pynum \<Rightarrow> bool" where
  "py_gt NaN y = False"
| "py_gt x NaN = False"
| "py_gt NegInf y = False"
| "py_gt (Num a) NegInf = True"
| "py_gt (Num a) (Num b) = (b < a)"
| "py_gt (Num a) PosInf = False"
| "py_gt PosInf PosInf = False"
| "py_gt PosInf y = True"

definition py_max :: "pynum \<Rightarrow> pynum \<Rightarrow> pynum" where
  "py_max v x = (if py_gt x v then x else v)"

definition py_min :: "pynum \<Rightarrow> pynum \<Rightarrow> pynum" where
  "py_min v x = (if py_gt v x then x else v)"

fun py_mul :: "pynum \<Rightarrow> rat \<Rightarrow> pynum" where
  "py_mul NaN p = NaN"
| "py_mul (Num a) p = Num (a * p)"
| "py_mul PosInf p = (if 0 < p then PosInf else if p < 0 then NegInf else NaN)"
| "py_mul NegInf p = (if 0 < p then NegInf else if p < 0 then PosInf else NaN)"

fun py_add :: "pynum \<Rightarrow> pynum \<Rightarrow> pynum" where
  "py_add NaN y = NaN"
| "py_add x NaN = NaN"
| "py_add (Num a) (Num b) = Num (a + b)"
| "py_add (Num a) y = y"
| "py_add PosInf NegInf = NaN"
| "py_add PosInf y = PosInf"
| "py_add NegInf PosInf = NaN"
| "py_add NegInf y = NegInf"

text \<open>\<open>sum_chances / num_chances\<close>, the divisor a length: division by zero raises.\<close>

definition py_div :: "pynum \<Rightarrow> nat \<Rightarrow> pynum comp" where
  "py_div x n =
     (if n = 0 then raise ZeroDivisionError
      else ret (case x of Num a \<Rightarrow> Num (a / of_nat n) | y \<Rightarrow> y))"

primrec expect_max_loop :: "('a \<Rightarrow> pynum comp) \<Rightarrow> 'a list \<Rightarrow> pynum \<Rightarrow> pynum comp" where
  "expect_max_loop f [] v = ret v"
| "expect_max_loop f (a # as) v = bind (f a) (\<lambda>w. expect_max_loop f as (py_max v w))"

primrec expect_min_loop :: "('a \<Rightarrow> pynum comp) \<Rightarrow> 'a list \<Rightarrow> pynum \<Rightarrow> pynum comp" where
  "expect_min_loop f [] v = ret v"
| "expect_min_loop f (a # as) v = bind (f a) (\<lambda>w. expect_min_loop f as (py_min v w))"

text \<open>
  The loop of \<open>chance_node\<close> over \<open>game.chances(res_state)\<close>. Its body assigns
  \<open>res_state = game.outcome(res_state, chance)\<close>, so the next chance is applied to the
  state the previous one produced; \<open>val\<close> is \<open>max_value\<close> or \<open>min_value\<close>, by who is
  to move there (the code reads \<open>res_state.to_move\<close>, which is what \<open>Game.to_move\<close>
  returns). \<open>max_value\<close> and \<open>min_value\<close> have no terminal test of their own, and
  the fuel of the model counts the chance nodes still to be expanded.
\<close>

primrec chance_loop ::
  "('s \<Rightarrow> 'c \<Rightarrow> 's) \<Rightarrow> ('c \<Rightarrow> rat) \<Rightarrow> ('s \<Rightarrow> pynum comp) \<Rightarrow> 'c list \<Rightarrow> 's \<Rightarrow> pynum \<Rightarrow>
   pynum comp" where
  "chance_loop outc prob val [] res_state sum_chances = ret sum_chances"
| "chance_loop outc prob val (c # cs) res_state sum_chances =
     bind (val (outc res_state c)) (\<lambda>util.
       chance_loop outc prob val cs (outc res_state c)
         (py_add sum_chances (py_mul util (prob c))))"

fun expect_max_value ::
    "('s, 'a, 'c, 'z) stochastic_game_scheme \<Rightarrow> string \<Rightarrow> nat \<Rightarrow> 's \<Rightarrow> pynum comp"
  and expect_min_value ::
    "('s, 'a, 'c, 'z) stochastic_game_scheme \<Rightarrow> string \<Rightarrow> nat \<Rightarrow> 's \<Rightarrow> pynum comp"
  and chance_node ::
    "('s, 'a, 'c, 'z) stochastic_game_scheme \<Rightarrow> string \<Rightarrow> nat \<Rightarrow> 's \<Rightarrow> 'a \<Rightarrow> pynum comp" where
  "expect_max_value g player n state =
     expect_max_loop (chance_node g player n state) (actions g state) NegInf"
| "expect_min_value g player n state =
     expect_min_loop (chance_node g player n state) (actions g state) PosInf"
| "chance_node g player 0 state action =
     bind (result g state action) (\<lambda>res_state.
       if terminal_test g res_state then ret (Num (of_int (utility g res_state player)))
       else None)"
| "chance_node g player (Suc n) state action =
     bind (result g state action) (\<lambda>res_state.
       if terminal_test g res_state then ret (Num (of_int (utility g res_state player)))
       else bind (chance_loop (outcome g) (probability g)
                    (\<lambda>s. if to_move g s = player then expect_max_value g player n s
                         else expect_min_value g player n s)
                    (chances g res_state) res_state (Num 0))
              (\<lambda>sum_chances. py_div sum_chances (length (chances g res_state))))"

definition expect_minmax ::
  "('s, 'a, 'c, 'z) stochastic_game_scheme \<Rightarrow> nat \<Rightarrow> 's \<Rightarrow> 'a option comp" where
  "expect_minmax g fuel state =
     (let player = to_move g state in
      py_max_key_default py_gt (chance_node g player fuel state) (actions g state))"

section \<open>nMensMorrisGame.py: the board, its two players and the click handler\<close>

text \<open>
  \<open>GameSteps = ['Setup', 'Move', 'Remove']\<close>; a player's \<open>step\<close> is one of them.
\<close>

definition GameSteps :: "string list" where
  "GameSteps = [''Setup'', ''Move'', ''Remove'']"

definition PlayerType :: "string list" where
  "PlayerType = [''Human'', ''Random'', ''MinMax'', ''AlphaBeta'', ''AlphaBetaCutoff'',
                 ''ExpectimaxCutoff'']"

record NMMPlayer =
  player_id :: string
  player_type :: string
  step :: string
  player_utility :: int
  poses :: "pos list"
  numWin :: int
  picked :: "pos option"

text \<open>\<open>NMMPlayer.__init__(self, id, type)\<close> sets \<open>self.id = 'X'\<close> whatever \<open>id\<close> is.\<close>

definition NMMPlayer_init :: "int \<Rightarrow> string \<Rightarrow> NMMPlayer" where
  "NMMPlayer_init i ty =
     \<lparr>player_id = ''X'', player_type = ty, step = GameSteps ! 0, player_utility = 0,
      poses = [], numWin = 0, picked = None\<rparr>"

text \<open>
  The state of \<open>BoardGui\<close> that the handlers read and write: the text of every cell's
  button (\<open>""\<close>, \<open>"X"\<close> or \<open>"O"\<close>), \<open>to_move\<close>, the two players and their unplaced
  tokens. The calls that only enable, disable or colour a button change nothing the
  program reads, and have no counterpart here.
\<close>

record BoardGui =
  btn_text :: "pos \<Rightarrow> string"
  gui_to_move :: string
  depth :: int
  player1 :: NMMPlayer
  player2 :: NMMPlayer
  player1tokens :: int
  player2tokens :: int

text \<open>
  \<open>__init__\<close> gives a cell a button where the grid condition holds; \<open>self.cells\<close> is
  the list of rows, each row the list of its cells in column order.
\<close>

definition is_cell :: "int \<Rightarrow> int \<Rightarrow> bool" where
  "is_cell i j =
     ((i mod 6 = 0 \<and> j mod 3 = 0) \<or> (i mod 4 = 1 \<and> j mod 2 = 1) \<or>
      ((i = 2 \<or> i = 4) \<and> (j = 2 \<or> j = 3 \<or> j = 4)) \<or> (i = 3 \<and> j \<noteq> 3))"

definition cells :: "pos list list" where
  "cells = map (\<lambda>i. map (Pair i) (filter (is_cell i) [0..6])) [0..6]"

definition BoardGui_init :: BoardGui where
  "BoardGui_init =
     \<lparr>btn_text = (\<lambda>p. []), gui_to_move = ''X'', depth = - 1,
      player1 = NMMPlayer_init 0 (PlayerType ! 0),
      player2 = NMMPlayer_init 1 (PlayerType ! 1),
      player1tokens = 9, player2tokens = 9\<rparr>"

text \<open>Python's list indexing: a negative index counts from the end.\<close>

definition py_nth :: "'a list \<Rightarrow> int \<Rightarrow> 'a comp" where
  "py_nth xs i =
     (if 0 \<le> i \<and> i < int (length xs) then ret (xs ! nat i)
      else if i < 0 \<and> - int (length xs) \<le> i then ret (xs ! nat (int (length xs) + i))
      else raise IndexError)"

definition set_text :: "BoardGui \<Rightarrow> pos \<Rightarrow> string \<Rightarrow> BoardGui" where
  "set_text g p t = g\<lparr>btn_text := (btn_text g)(p := t)\<rparr>"

text \<open>
  \<open>getButton(pos).config(text=t)\<close>: \<open>getButton\<close> returns \<open>None\<close> for a position that is
  no cell, and the call on it raises.
\<close>

definition getButton_set_text :: "BoardGui \<Rightarrow> pos \<Rightarrow> string \<Rightarrow> BoardGui comp" where
  "getButton_set_text g p t =
     (if p \<in> set (concat cells) then ret (set_text g p t) else raise AttributeError)"

definition disable_game :: "BoardGui \<Rightarrow> BoardGui" where
  "disable_game g =
     g\<lparr>btn_text := (\<lambda>p. if p \<in> set (concat cells) then [] else btn_text g p)\<rparr>"

definition check_win :: "BoardGui \<Rightarrow> bool" where
  "check_win g =
     (if player1tokens g = 0 \<and> player2tokens g = 0 then
        (if length (poses (player1 g)) < 3 then True
         else if length (poses (player2 g)) < 3 then True
         else False)
      else False)"

subsection \<open>check3inRow\<close>

definition plausible_matches :: "pos list list" where
  "plausible_matches =
     [[(0, 0), (1, 1), (2, 2)],
      [(0, 6), (1, 5), (2, 4)],
      [(6, 0), (5, 1), (4, 2)],
      [(6, 6), (5, 5), (4, 4)],
      [(3, 1), (4, 2), (5, 3)],
      [(5, 3), (4, 4), (3, 5)],
      [(3, 1), (2, 2), (1, 3)],
      [(1, 3), (2, 4), (3, 5)],
      [(2, 2), (3, 2), (4, 2)],
      [(2, 4), (3, 4), (4, 4)],
      [(0, 3), (1, 3), (2, 3)],
      [(4, 3), (5, 3), (6, 3)],
      [(2, 2), (2, 3), (2, 4)],
      [(4, 2), (4, 3), (4, 4)],
      [(3, 0), (3, 1), (3, 2)],
      [(3, 4), (3, 5), (3, 6)]]"

text \<open>
  The loop over the matches: the first match that contains \<open>cur_move\<close> and lies wholly
  in the player's \<open>poses\<close> increments that player's \<open>numWin\<close> and returns \<open>True\<close>.
\<close>

primrec check3_loop :: "BoardGui \<Rightarrow> string \<Rightarrow> pos \<Rightarrow> pos list list \<Rightarrow> bool \<times> BoardGui" where
  "check3_loop g player cur_move [] = (False, g)"
| "check3_loop g player cur_move (m # ms) =
     (if cur_move \<in> set m then
        (if player = ''X'' then
           (if list_all (\<lambda>locs. locs \<in> set (poses (player1 g))) m
            then (True, g\<lparr>player1 := (player1 g)\<lparr>numWin := numWin (player1 g) + 1\<rparr>\<rparr>)
            else check3_loop g player cur_move ms)
         else if player = ''O'' then
           (if list_all (\<lambda>locs. locs \<in> set (poses (player2 g))) m
            then (True, g\<lparr>player2 := (player2 g)\<lparr>numWin := numWin (player2 g) + 1\<rparr>\<rparr>)
            else check3_loop g player cur_move ms)
         else check3_loop g player cur_move ms)
      else check3_loop g player cur_move ms)"

definition check3inRow :: "BoardGui \<Rightarrow> string \<Rightarrow> pos \<Rightarrow> bool \<times> BoardGui" where
  "check3inRow g player cur_move = check3_loop g player cur_move plausible_matches"

subsection \<open>chooseRandomToRemove\<close>

text \<open>
  The handlers draw random numbers. The numbers still to come are a list that the
  drawing functions take and return the rest of; \<open>random.choice(xs)\<close> with the next
  number \<open>r\<close> is \<open>xs ! (r mod length xs)\<close>. A draw from the empty list does not return:
  it is the model's fuel for the loops that redraw until a test passes.

  \<open>chooseRandomToRemove\<close>: \<open>sol = random.choice(list)\<close>, redrawn while
  \<open>check3inRow("X", sol)\<close> holds and the list has more than three elements. Every test
  of the loop condition calls \<open>check3inRow\<close>.
\<close>

fun choose_loop ::
  "pos list \<Rightarrow> pos \<Rightarrow> BoardGui \<Rightarrow> nat list \<Rightarrow> (pos \<times> BoardGui \<times> nat list) comp" where
  "choose_loop lst sol g [] =
     (case check3inRow g ''X'' sol of
        (c, g1) \<Rightarrow> if c \<and> 3 < length lst then None else ret (sol, g1, []))"
| "choose_loop lst sol g (r # rs) =
     (case check3inRow g ''X'' sol of
        (c, g1) \<Rightarrow> if c \<and> 3 < length lst then choose_loop lst (lst ! (r mod length lst)) g1 rs
                   else ret (sol, g1, r # rs))"

definition chooseRandomToRemove ::
  "BoardGui \<Rightarrow> pos list \<Rightarrow> nat list \<Rightarrow> (pos \<times> BoardGui \<times> nat list) comp" where
  "chooseRandomToRemove g lst rs =
     (if lst = [] then raise IndexError
      else case rs of
             [] \<Rightarrow> None
           | r # rs' \<Rightarrow> choose_loop lst (lst ! (r mod length lst)) g rs')"

subsection \<open>Moves\<close>

definition getAvailableMovesForPos :: "BoardGui \<Rightarrow> int \<Rightarrow> int \<Rightarrow> pos list" where
  "getAvailableMovesForPos g x y =
     (let vacant_cells = filter (\<lambda>p. btn_text g p = []) (concat cells)
      in [(x + i, y + j). i \<leftarrow> [- 1, 0, 1], j \<leftarrow> [- 1, 0, 1], (x + i, y + j) \<in> set vacant_cells])"

definition getAvailableMoves :: "BoardGui \<Rightarrow> pos \<Rightarrow> pos list" where
  "getAvailableMoves g pose = getAvailableMovesForPos g (fst pose) (snd pose)"

text \<open>
  \<open>move(start, end)\<close>. The inner loop looks for the end cell in its row and, if its
  text is empty, moves the text over and returns \<open>True\<close>; the outer loop looks for the
  start cell in its row and asserts that it is not empty.
\<close>

primrec move_inner :: "BoardGui \<Rightarrow> pos \<Rightarrow> pos \<Rightarrow> pos list \<Rightarrow> BoardGui option" where
  "move_inner g start dest [] = None"
| "move_inner g start dest (eCell # row) =
     (if eCell = dest then
        (if btn_text g eCell = []
         then Some (g\<lparr>btn_text := (btn_text g)(eCell := btn_text g start, start := [])\<rparr>)
         else move_inner g start dest row)
      else move_inner g start dest row)"

primrec move_outer :: "BoardGui \<Rightarrow> pos \<Rightarrow> pos \<Rightarrow> pos list \<Rightarrow> (bool \<times> BoardGui) comp" where
  "move_outer g start dest [] = ret (False, g)"
| "move_outer g start dest (sCell # row) =
     (if sCell = start then
        (if btn_text g sCell = [] then raise AssertionError
         else bind (py_nth cells (fst dest)) (\<lambda>dest_row.
                case move_inner g start dest dest_row of
                  Some g' \<Rightarrow> ret (True, g')
                | None \<Rightarrow> move_outer g start dest row))
      else move_outer g start dest row)"

definition move :: "BoardGui \<Rightarrow> pos \<Rightarrow> pos \<Rightarrow> (bool \<times> BoardGui) comp" where
  "move g start dest =
     (if dest \<notin> set (getAvailableMoves g start) then ret (False, g)
      else bind (py_nth cells (fst start)) (\<lambda>start_row. move_outer g start dest start_row))"

text \<open>
  \<open>randomMove\<close>: up to 50 draws of a row and an index into it, until the cell drawn
  is empty; \<open>(-1, -1)\<close> when none was.
\<close>

fun randomMove_loop :: "nat \<Rightarrow> BoardGui \<Rightarrow> nat list \<Rightarrow> ((int \<times> int) \<times> nat list) comp" where
  "randomMove_loop 0 g rs = ret ((- 1, - 1), rs)"
| "randomMove_loop (Suc upperCap) g [] = None"
| "randomMove_loop (Suc upperCap) g [r] = None"
| "randomMove_loop (Suc upperCap) g (r1 # r2 # rs) =
     (let a = r1 mod 7;
          b = r2 mod length (cells ! a)
      in if btn_text g ((cells ! a) ! b) = [] then ret ((int a, int b), rs)
         else randomMove_loop upperCap g rs)"

definition randomMove :: "BoardGui \<Rightarrow> nat list \<Rightarrow> ((int \<times> int) \<times> nat list) comp" where
  "randomMove g rs = randomMove_loop 50 g rs"

text \<open>
  \<open>makeRandomMove\<close>: draws one of player 2's pieces until one has an available move,
  then draws one of its moves.
\<close>

fun makeRandomMove :: "BoardGui \<Rightarrow> nat list \<Rightarrow> ((pos \<times> pos) \<times> nat list) comp" where
  "makeRandomMove g [] = (if poses (player2 g) = [] then raise IndexError else None)"
| "makeRandomMove g (r # rs) =
     (if poses (player2 g) = [] then raise IndexError
      else case poses (player2 g) ! (r mod length (poses (player2 g))) of
        (a, b) \<Rightarrow>
          (let available_moves = getAvailableMovesForPos g a b
           in if available_moves = [] then makeRandomMove g rs
              else case rs of
                     [] \<Rightarrow> None
                   | r' # rs' \<Rightarrow>
                       ret (((a, b), available_moves ! (r' mod length available_moves)), rs')))"

subsection \<open>on_click\<close>

text \<open>
  A branch of the handler either ends the handler with \<open>return\<close> or falls through to
  the code after it.
\<close>

datatype 'a flow = Returned 'a | Fallthrough 'a

definition set_step1 :: "BoardGui \<Rightarrow> string \<Rightarrow> BoardGui" where
  "set_step1 g st = g\<lparr>player1 := (player1 g)\<lparr>step := st\<rparr>\<rparr>"

definition set_step2 :: "BoardGui \<Rightarrow> string \<Rightarrow> BoardGui" where
  "set_step2 g st = g\<lparr>player2 := (player2 g)\<lparr>step := st\<rparr>\<rparr>"

text \<open>Player 1 places a token (\<open>self.player1.step == GameSteps[0]\<close>).\<close>

definition p1_place :: "BoardGui \<Rightarrow> pos \<Rightarrow> BoardGui" where
  "p1_place g p =
     (if 1 < player1tokens g then
        set_text (g\<lparr>player1 := (player1 g)\<lparr>poses := poses (player1 g) @ [p]\<rparr>,
                    player1tokens := player1tokens g - 1\<rparr>) p (gui_to_move g)
      else if player1tokens g = 1 then
        set_text (g\<lparr>player1 := (player1 g)\<lparr>poses := poses (player1 g) @ [p],
                                              step := GameSteps ! 1\<rparr>,
                    player1tokens := player1tokens g - 1\<rparr>) p (gui_to_move g)
      else g)"

definition p1_setup :: "BoardGui \<Rightarrow> pos \<Rightarrow> BoardGui flow comp" where
  "p1_setup g p =
     (case check3inRow (p1_place g p) (gui_to_move (p1_place g p)) p of
        (check3_p1, g1) \<Rightarrow>
          if check3_p1 then ret (Returned (set_step1 g1 (GameSteps ! 2)))
          else ret (Fallthrough g1))"

text \<open>Player 1 picks one of its pieces, or moves the picked piece (\<open>GameSteps[1]\<close>).\<close>

definition p1_move :: "BoardGui \<Rightarrow> pos \<Rightarrow> BoardGui flow comp" where
  "p1_move g p =
     (if p \<in> set (poses (player1 g)) then
        ret (Returned (g\<lparr>player1 := (player1 g)\<lparr>picked := Some p\<rparr>\<rparr>))
      else case picked (player1 g) of
        None \<Rightarrow> ret (Fallthrough g)
      | Some start \<Rightarrow>
          bind (move g start p) (\<lambda>(moved, g1).
            if moved then
              (if start \<in> set (poses (player1 g1)) then
                 (case check3inRow
                         (g1\<lparr>player1 := (player1 g1)\<lparr>poses := remove1 start (poses (player1 g1)) @ [p],
                                                       picked := None\<rparr>\<rparr>)
                         (gui_to_move g1) p of
                    (check3_p1, g2) \<Rightarrow>
                      if check3_p1 then ret (Returned (set_step1 g2 (GameSteps ! 2)))
                      else ret (Fallthrough g2))
               else raise ValueError)
            else ret (Returned g1)))"

text \<open>Player 1 removes a piece of player 2 (\<open>GameSteps[2]\<close>).\<close>

definition p1_remove :: "BoardGui \<Rightarrow> pos \<Rightarrow> BoardGui flow comp" where
  "p1_remove g p =
     (if p \<in> set (poses (player2 g)) then
        (case check3inRow g ''O'' p of
           (in_row, g1) \<Rightarrow>
             if in_row \<and> 3 < length (poses (player2 g1)) then ret (Returned g1)
             else
               (let g2 = set_text (g1\<lparr>player2 := (player2 g1)\<lparr>poses := remove1 p (poses (player2 g1))\<rparr>\<rparr>)
                           p []
                in if check_win g2 then ret (Returned g2)
                   else if player1tokens g2 = 0 then ret (Fallthrough (set_step1 g2 (GameSteps ! 1)))
                   else ret (Fallthrough (set_step1 g2 (GameSteps ! 0)))))
      else ret (Fallthrough g))"

definition p1_turn :: "BoardGui \<Rightarrow> pos \<Rightarrow> BoardGui flow comp" where
  "p1_turn g p =
     (if step (player1 g) = GameSteps ! 0 then p1_setup g p
      else if step (player1 g) = GameSteps ! 1 then p1_move g p
      else if step (player1 g) = GameSteps ! 2 then p1_remove g p
      else ret (Fallthrough g))"

definition flip_to_move :: "BoardGui \<Rightarrow> BoardGui" where
  "flip_to_move g = g\<lparr>gui_to_move := (if gui_to_move g = ''X'' then ''O'' else ''X'')\<rparr>"

text \<open>
  Player 2 has completed a row: a piece of player 1 is drawn and removed. The block
  stands twice in the handler, after a placement and after a move.
\<close>

definition p2_take :: "BoardGui \<Rightarrow> nat list \<Rightarrow> (BoardGui flow \<times> nat list) comp" where
  "p2_take g rs =
     bind (chooseRandomToRemove g (poses (player1 g)) rs) (\<lambda>(rem, g1, rs1).
       if rem \<in> set (poses (player1 g1)) then
         bind (getButton_set_text
                 (g1\<lparr>player1 := (player1 g1)\<lparr>poses := remove1 rem (poses (player1 g1))\<rparr>\<rparr>) rem [])
           (\<lambda>g2. if check_win g2 then ret (Returned g2, rs1)
                  else if player2tokens g2 = 0 then ret (Fallthrough (set_step2 g2 (GameSteps ! 1)), rs1)
                  else ret (Fallthrough (set_step2 g2 (GameSteps ! 0)), rs1))
       else raise ValueError)"

definition p2_place :: "BoardGui \<Rightarrow> pos \<Rightarrow> BoardGui" where
  "p2_place g p =
     (if 1 < player2tokens g then
        set_text (g\<lparr>player2 := (player2 g)\<lparr>poses := poses (player2 g) @ [p]\<rparr>,
                    player2tokens := player2tokens g - 1\<rparr>) p (gui_to_move g)
      else if player2tokens g = 1 then
        set_text (g\<lparr>player2 := (player2 g)\<lparr>poses := poses (player2 g) @ [p],
                                              step := GameSteps ! 1\<rparr>,
                    player2tokens := player2tokens g - 1\<rparr>) p (gui_to_move g)
      else g)"

definition p2_setup :: "BoardGui \<Rightarrow> pos \<Rightarrow> nat list \<Rightarrow> (BoardGui flow \<times> nat list) comp" where
  "p2_setup g p rs =
     (case check3inRow (p2_place g p) (gui_to_move (p2_place g p)) p of
        (check3_p2, g1) \<Rightarrow>
          if check3_p2 then p2_take g1 rs else ret (Fallthrough g1, rs))"

definition p2_move :: "BoardGui \<Rightarrow> nat list \<Rightarrow> (BoardGui flow \<times> nat list) comp" where
  "p2_move g rs =
     bind (makeRandomMove g rs) (\<lambda>((start, dest), rs1).
       bind (if start \<in> set (poses (player2 g)) then
               bind (move (g\<lparr>player2 := (player2 g)\<lparr>picked := Some start\<rparr>\<rparr>) start dest)
                 (\<lambda>(moved, g1).
                    if moved then
                      (if start \<in> set (poses (player2 g1)) then
                         bind (getButton_set_text
                                 (g1\<lparr>player2 := (player2 g1)\<lparr>poses := remove1 start (poses (player2 g1)) @ [dest]\<rparr>\<rparr>)
                                 dest (gui_to_move g1))
                           (\<lambda>g2. bind (getButton_set_text g2 start [])
                              (\<lambda>g3. ret (g3\<lparr>player2 := (player2 g3)\<lparr>picked := None\<rparr>\<rparr>)))
                       else raise ValueError)
                    else ret (g1\<lparr>player2 := (player2 g1)\<lparr>picked := None\<rparr>\<rparr>))
             else ret g)
         (\<lambda>g4. case check3inRow g4 (gui_to_move g4) dest of
                  (check3_p2, g5) \<Rightarrow>
                    if check3_p2 then p2_take g5 rs1 else ret (Fallthrough g5, rs1)))"

text \<open>
  The second half of the handler: a random free cell is drawn, player 2 places on it
  or moves, and \<open>to_move\<close> is switched back.
\<close>

definition p2_turn :: "BoardGui \<Rightarrow> nat list \<Rightarrow> (BoardGui \<times> nat list) comp" where
  "p2_turn g rs =
     bind (randomMove g rs) (\<lambda>((a, b), rs1).
       bind (bind (py_nth cells a) (\<lambda>row. py_nth row b)) (\<lambda>p.
         if a \<noteq> - 1 \<and> b \<noteq> - 1 then
           bind (if step (player2 g) = GameSteps ! 0 then p2_setup g p rs1
                 else if step (player2 g) = GameSteps ! 1 then p2_move g rs1
                 else ret (Fallthrough g, rs1))
             (\<lambda>(fl, rs2). case fl of
                             Returned g1 \<Rightarrow> ret (g1, rs2)
                           | Fallthrough g1 \<Rightarrow> ret (flip_to_move g1, rs2))
         else ret (disable_game g, rs1)))"

text \<open>
  \<open>on_click(button)\<close>, the button given by the position of its cell. The closing
  \<open>if self.check_win(): return\<close> changes nothing.
\<close>

definition on_click :: "BoardGui \<Rightarrow> pos \<Rightarrow> nat list \<Rightarrow> (BoardGui \<times> nat list) comp" where
  "on_click g p rs =
     bind (p1_turn g p) (\<lambda>fl.
       case fl of
         Returned g1 \<Rightarrow> ret (g1, rs)
       | Fallthrough g1 \<Rightarrow> p2_turn (flip_to_move g1) rs)"

section \<open>Notions used in the statements\<close>

text \<open>
  The expected utility in the words of the specification: over all chance outcomes of
  the state an action results in, the value of each outcome weighted by its
  probability. \<open>val\<close> is the value of an outcome state.
\<close>

definition spec_expected_utility ::
  "('s, 'a, 'c, 'z) stochastic_game_scheme \<Rightarrow> ('s \<Rightarrow> rat) \<Rightarrow> 's \<Rightarrow> rat" where
  "spec_expected_utility g val res_state =
     sum_list (map (\<lambda>c. probability g c * val (outcome g res_state c)) (chances g res_state))"

text \<open>The finite number a computation returned (0 when it returned none).\<close>

definition num_of :: "pynum comp \<Rightarrow> rat" where
  "num_of c = (case c of Some (Inr (Num q)) \<Rightarrow> q | _ \<Rightarrow> 0)"

text \<open>
  A piece at \<open>p\<close> belongs to a completed 3-in-a-row of the pieces \<open>ps\<close>: one of the
  matches of \<open>check3inRow\<close> contains \<open>p\<close> and lies wholly in \<open>ps\<close>.
\<close>

definition in_3inRow :: "pos list \<Rightarrow> pos \<Rightarrow> bool" where
  "in_3inRow ps p =
     list_ex (\<lambda>m. p \<in> set m \<and> list_all (\<lambda>locs. locs \<in> set ps) m) plausible_matches"

text \<open>
  The game tree below a state is finite: it has depth at most \<open>n\<close>, and every call of
  \<open>result\<close> in it returns a state.
\<close>

fun game_tree_within :: "('s, 'a, 'z) game_scheme \<Rightarrow> nat \<Rightarrow> 's \<Rightarrow> bool" where
  "game_tree_within g 0 s = terminal_test g s"
| "game_tree_within g (Suc n) s =
     (terminal_test g s \<or>
      list_all (\<lambda>a. case result g s a of
                       Some (Inr s') \<Rightarrow> game_tree_within g n s'
                     | _ \<Rightarrow> False) (actions g s))"

text \<open>
  The minimax value of an action at a state: the value \<open>minmax_decision\<close> ranks the action
  by, which is \<open>min_value\<close> of the state the action leads to, for the player to move.
\<close>

definition minimax_action_value ::
  "('s, 'a, 'z) game_scheme \<Rightarrow> nat \<Rightarrow> 's \<Rightarrow> 'a \<Rightarrow> ext comp" where
  "minimax_action_value g fuel s a =
     bind (result g s a) (minmax_min_value g (to_move g s) fuel)"

text \<open>
  What a value \<open>v\<close> returned by a search within the window \<open>(alpha, beta)\<close> tells about the
  minimax value \<open>m\<close>: at or below \<open>alpha\<close> it is an upper bound of \<open>m\<close>, at or above
  \<open>beta\<close> a lower bound, and strictly inside the window it is \<open>m\<close>.
\<close>

definition bounds_exact :: "ext \<Rightarrow> ext \<Rightarrow> ext \<Rightarrow> ext \<Rightarrow> bool" where
  "bounds_exact alpha beta m v =
     ((v \<le> alpha \<longrightarrow> m \<le> v) \<and> (alpha < v \<and> v < beta \<longrightarrow> v = m) \<and> (beta \<le> v \<longrightarrow> v \<le> m))"

text \<open>
  The straight lines of the board of the specification, three nested squares joined by
  midpoint connectors, on the grid positions of the cells: the three sides along each
  row and column of the squares and the four connectors. A piece at \<open>p\<close> is in a mill of
  the pieces \<open>ps\<close> when one of these lines contains \<open>p\<close> and lies wholly in \<open>ps\<close>.
\<close>

definition spec_mills :: "pos list list" where
  "spec_mills =
     [[(0, 0), (0, 3), (0, 6)], [(1, 1), (1, 3), (1, 5)], [(2, 2), (2, 3), (2, 4)],
      [(3, 0), (3, 1), (3, 2)], [(3, 4), (3, 5), (3, 6)],
      [(4, 2), (4, 3), (4, 4)], [(5, 1), (5, 3), (5, 5)], [(6, 0), (6, 3), (6, 6)],
      [(0, 0), (3, 0), (6, 0)], [(1, 1), (3, 1), (5, 1)], [(2, 2), (3, 2), (4, 2)],
      [(0, 3), (1, 3), (2, 3)], [(4, 3), (5, 3), (6, 3)],
      [(2, 4), (3, 4), (4, 4)], [(1, 5), (3, 5), (5, 5)], [(0, 6), (3, 6), (6, 6)]]"

definition in_spec_mill :: "pos list \<Rightarrow> pos \<Rightarrow> bool" where
  "in_spec_mill ps p =
     list_ex (\<lambda>m. p \<in> set m \<and> list_all (\<lambda>locs. locs \<in> set ps) m) spec_mills"


text \<open>
  A session at the board: the handler is called on one click after the other, each call
  starting from the state and the random numbers the call before it left.
\<close>

fun run_clicks :: "BoardGui \<Rightarrow> pos list \<Rightarrow> nat list \<Rightarrow> (BoardGui \<times> nat list) comp" where
  "run_clicks g [] rs = ret (g, rs)"
| "run_clicks g (p # ps) rs = bind (on_click g p rs) (\<lambda>(g', rs'). run_clicks g' ps rs')"

section \<open>Example inputs\<close>

text \<open>A state of NMensMorris with two open moves, X to move.\<close>

definition two_moves_state :: GameState where
  "two_moves_state =
     \<lparr>state_to_move = ''X'', state_utility = 0, state_board = Map.empty,
      state_moves = [(1, 1), (1, 2)]\<rparr>"

text \<open>
  A small stochastic game. At state 0 player X chooses between \<open>b\<close>, which ends the game
  with utility 2, and \<open>a\<close>, which leads to state 2 where a fair coin is thrown; either
  face leaves X with one forced action that ends the game with utility 3.
\<close>

definition dice_game :: "(nat, string, nat) stochastic_game" where
  "dice_game =
     \<lparr>actions = (\<lambda>s. if s = 0 then [''b'', ''a''] else if s = 3 \<or> s = 4 then [''w''] else []),
      result = (\<lambda>s a. ret (if s = 0 then (if a = ''b'' then 1 else 2)
                              else if s = 3 then 5 else if s = 4 then 6 else s)),
      utility = (\<lambda>s player. (if player = ''X'' then 1 else - 1) *
                   (if s = 1 then 2 else if s = 5 \<or> s = 6 then 3 else 0)),
      terminal_test = (\<lambda>s. s = 1 \<or> s = 5 \<or> s = 6),
      to_move = (\<lambda>s. ''X''),
      chances = (\<lambda>s. if s = 2 then [0, 1] else []),
      outcome = (\<lambda>s c. if c = 0 then 3 else 4),
      probability = (\<lambda>c. 1 / 2)\<rparr>"

text \<open>
  States of the board used as examples below: player 1 about to remove a piece of
  player 2; player 1 about to place a token; player 1 with a piece picked for a move;
  player 1 reduced to three pieces, all tokens placed, with a piece picked.
\<close>

definition remove_state :: BoardGui where
  "remove_state =
     \<lparr>btn_text = (\<lambda>p. [])((0, 0) := ''X'', (1, 1) := ''X'', (2, 2) := ''X'', (6, 0) := ''X'',
                            (0, 3) := ''O'', (1, 3) := ''O'', (2, 3) := ''O'', (6, 6) := ''O''),
      gui_to_move = ''X'', depth = - 1,
      player1 = \<lparr>player_id = ''X'', player_type = ''Human'', step = ''Remove'', player_utility = 0,
                 poses = [(0, 0), (1, 1), (6, 0), (2, 2)], numWin = 1, picked = None\<rparr>,
      player2 = \<lparr>player_id = ''X'', player_type = ''Random'', step = ''Setup'', player_utility = 0,
                 poses = [(0, 3), (1, 3), (2, 3), (6, 6)], numWin = 1, picked = None\<rparr>,
      player1tokens = 5, player2tokens = 5\<rparr>"

definition place_state :: BoardGui where
  "place_state =
     \<lparr>btn_text = (\<lambda>p. [])((0, 0) := ''X'', (1, 1) := ''X'', (6, 6) := ''O'', (6, 3) := ''O''),
      gui_to_move = ''X'', depth = - 1,
      player1 = \<lparr>player_id = ''X'', player_type = ''Human'', step = ''Setup'', player_utility = 0,
                 poses = [(0, 0), (1, 1)], numWin = 0, picked = None\<rparr>,
      player2 = \<lparr>player_id = ''X'', player_type = ''Random'', step = ''Setup'', player_utility = 0,
                 poses = [(6, 6), (6, 3)], numWin = 0, picked = None\<rparr>,
      player1tokens = 7, player2tokens = 7\<rparr>"

definition move_state :: BoardGui where
  "move_state =
     \<lparr>btn_text = (\<lambda>p. [])((0, 0) := ''X'', (1, 1) := ''X'', (2, 3) := ''X'',
                            (6, 6) := ''O'', (6, 3) := ''O'', (6, 0) := ''O''),
      gui_to_move = ''X'', depth = - 1,
      player1 = \<lparr>player_id = ''X'', player_type = ''Human'', step = ''Move'', player_utility = 0,
                 poses = [(0, 0), (1, 1), (2, 3)], numWin = 0, picked = Some (2, 3)\<rparr>,
      player2 = \<lparr>player_id = ''X'', player_type = ''Random'', step = ''Move'', player_utility = 0,
                 poses = [(6, 6), (6, 3), (6, 0)], numWin = 0, picked = None\<rparr>,
      player1tokens = 0, player2tokens = 0\<rparr>"

definition flying_state :: BoardGui where
  "flying_state =
     \<lparr>btn_text = (\<lambda>p. [])((0, 0) := ''X'', (0, 3) := ''X'', (0, 6) := ''X'',
                            (3, 0) := ''O'', (3, 1) := ''O'', (3, 4) := ''O'', (3, 5) := ''O''),
      gui_to_move = ''X'', depth = - 1,
      player1 = \<lparr>player_id = ''X'', player_type = ''Human'', step = ''Move'', player_utility = 0,
                 poses = [(0, 0), (0, 3), (0, 6)], numWin = 0, picked = Some (0, 0)\<rparr>,
      player2 = \<lparr>player_id = ''X'', player_type = ''Random'', step = ''Move'', player_utility = 0,
                 poses = [(3, 0), (3, 1), (3, 4), (3, 5)], numWin = 2, picked = None\<rparr>,
      player1tokens = 0, player2tokens = 0\<rparr>"

text \<open>
  A state in which player 2 holds two pieces of a row and player 1 is placing, and the
  state the handler leaves after player 2 has completed the row.
\<close>

definition ai_mill_state :: BoardGui where
  "ai_mill_state =
     \<lparr>btn_text = (\<lambda>p. [])((0, 0) := ''X'', (0, 3) := ''O'', (1, 3) := ''O''),
      gui_to_move = ''X'', depth = - 1,
      player1 = \<lparr>player_id = ''X'', player_type = ''Human'', step = ''Setup'', player_utility = 0,
                 poses = [(0, 0)], numWin = 0, picked = None\<rparr>,
      player2 = \<lparr>player_id = ''X'', player_type = ''Random'', step = ''Setup'', player_utility = 0,
                 poses = [(0, 3), (1, 3)], numWin = 0, picked = None\<rparr>,
      player1tokens = 8, player2tokens = 7\<rparr>"

definition ai_mill_after :: BoardGui where
  "ai_mill_after =
     \<lparr>btn_text = (\<lambda>p. [])((0, 0) := ''X'', (0, 3) := ''O'', (1, 3) := ''O'',
                            (6, 6) := ''X'', (2, 3) := ''O'', (0, 0) := []),
      gui_to_move = ''X'', depth = - 1,
      player1 = \<lparr>player_id = ''X'', player_type = ''Human'', step = ''Setup'', player_utility = 0,
                 poses = [(6, 6)], numWin = 0, picked = None\<rparr>,
      player2 = \<lparr>player_id = ''X'', player_type = ''Random'', step = ''Setup'', player_utility = 0,
                 poses = [(0, 3), (1, 3), (2, 3)], numWin = 1, picked = None\<rparr>,
      player1tokens = 7, player2tokens = 6\<rparr>"

text \<open>
  A state in which player 2 holds the side \<open>(0, 0), (0, 3), (0, 6)\<close> of the outer square
  and a fourth piece, and player 1 is to remove; and the state the handler leaves after
  a click on \<open>(0, 0)\<close>. The state is reached from the initial board by player 1 placing
  on \<open>(2, 2)\<close>, \<open>(2, 3)\<close>, \<open>(3, 5)\<close>, \<open>(5, 1)\<close>, \<open>(2, 4)\<close> while player 2 draws its four cells.
\<close>

definition side_row_state :: BoardGui where
  "side_row_state =
     \<lparr>btn_text = (\<lambda>p. [])((2, 2) := ''X'', (0, 0) := ''O'', (2, 3) := ''X'', (0, 3) := ''O'',
                            (3, 5) := ''X'', (0, 6) := ''O'', (5, 1) := ''X'', (6, 6) := ''O'',
                            (2, 4) := ''X''),
      gui_to_move = ''X'', depth = - 1,
      player1 = \<lparr>player_id = ''X'', player_type = ''Human'', step = ''Remove'', player_utility = 0,
                 poses = [(2, 2), (2, 3), (3, 5), (5, 1), (2, 4)], numWin = 1, picked = None\<rparr>,
      player2 = \<lparr>player_id = ''X'', player_type = ''Random'', step = ''Setup'', player_utility = 0,
                 poses = [(0, 0), (0, 3), (0, 6), (6, 6)], numWin = 0, picked = None\<rparr>,
      player1tokens = 4, player2tokens = 5\<rparr>"

definition side_row_after :: BoardGui where
  "side_row_after =
     \<lparr>btn_text = (\<lambda>p. [])((2, 2) := ''X'', (0, 0) := ''O'', (2, 3) := ''X'', (0, 3) := ''O'',
                            (3, 5) := ''X'', (0, 6) := ''O'', (5, 1) := ''X'', (6, 6) := ''O'',
                            (2, 4) := ''X'', (0, 0) := [], (6, 0) := ''O''),
      gui_to_move = ''X'', depth = - 1,
      player1 = \<lparr>player_id = ''X'', player_type = ''Human'', step = ''Setup'', player_utility = 0,
                 poses = [(2, 2), (2, 3), (3, 5), (5, 1), (2, 4)], numWin = 1, picked = None\<rparr>,
      player2 = \<lparr>player_id = ''X'', player_type = ''Random'', step = ''Setup'', player_utility = 0,
                 poses = [(0, 3), (0, 6), (6, 6), (6, 0)], numWin = 0, picked = None\<rparr>,
      player1tokens = 4, player2tokens = 4\<rparr>"

text \<open>
  A state in which player 1 holds two pieces of the side \<open>(0, 0), (0, 3), (0, 6)\<close> and is
  placing, and the state the handler leaves after a click on \<open>(0, 6)\<close>.
\<close>

definition side_place_state :: BoardGui where
  "side_place_state =
     \<lparr>btn_text = (\<lambda>p. [])((0, 0) := ''X'', (6, 6) := ''O'', (0, 3) := ''X'', (6, 3) := ''O''),
      gui_to_move = ''X'', depth = - 1,
      player1 = \<lparr>player_id = ''X'', player_type = ''Human'', step = ''Setup'', player_utility = 0,
                 poses = [(0, 0), (0, 3)], numWin = 0, picked = None\<rparr>,
      player2 = \<lparr>player_id = ''X'', player_type = ''Random'', step = ''Setup'', player_utility = 0,
                 poses = [(6, 6), (6, 3)], numWin = 0, picked = None\<rparr>,
      player1tokens = 7, player2tokens = 7\<rparr>"

definition side_place_after :: BoardGui where
  "side_place_after =
     \<lparr>btn_text = (\<lambda>p. [])((0, 0) := ''X'', (6, 6) := ''O'', (0, 3) := ''X'', (6, 3) := ''O'',
                            (0, 6) := ''X'', (4, 3) := ''O''),
      gui_to_move = ''X'', depth = - 1,
      player1 = \<lparr>player_id = ''X'', player_type = ''Human'', step = ''Setup'', player_utility = 0,
                 poses = [(0, 0), (0, 3), (0, 6)], numWin = 0, picked = None\<rparr>,
      player2 = \<lparr>player_id = ''X'', player_type = ''Random'', step = ''Setup'', player_utility = 0,
                 poses = [(6, 6), (6, 3), (4, 3)], numWin = 0, picked = None\<rparr>,
      player1tokens = 6, player2tokens = 6\<rparr>"

text \<open>
  A small game with a finite tree: a pile of \<open>n\<close> counters, a move takes one or two, and
  the player who finds the pile empty has lost.
\<close>

definition take_game :: "(string \<times> nat, nat) game" where
  "take_game =
     \<lparr>actions = (\<lambda>(p, n). if n = 0 then [] else if n = 1 then [1] else [1, 2]),
      result = (\<lambda>(p, n) a. ret (if p = ''X'' then ''O'' else ''X'', n - a)),
      utility = (\<lambda>(p, n) player. if p = player then - 1 else 1),
      terminal_test = (\<lambda>(p, n). n = 0),
      to_move = (\<lambda>(p, n). p)\<rparr>"

section \<open>Computations\<close>

lemma bind_ret [simp]: "bind (ret x) f = f x"
  by (simp add: ret_def)

lemma bind_raise [simp]: "bind (raise e) f = raise e"
  by (simp add: raise_def)

lemma ret_eq [simp]: "(ret x = ret y) = (x = y)"
  by (simp add: ret_def)


section \<open>Properties of NMensMorris.result\<close>

lemma getattr_game: "GameState_getattr state ''game'' = Some (Inl AttributeError)"
  by (simp add: GameState_getattr_def raise_def)

lemma result_illegal:
  "mv \<notin> set (state_moves state) \<Longrightarrow> NMensMorris_result self state mv = Some (Inr state)"
  by (simp add: NMensMorris_result_def ret_def)

lemma result_legal:
  "mv \<in> set (state_moves state) \<Longrightarrow>
   NMensMorris_result self state mv = Some (Inl AttributeError)"
  by (simp add: NMensMorris_result_def getattr_game)

text \<open>
  Claim C1, as the code has it: for every state and every action that is not among the
  legal actions of the state, \<open>result\<close> returns normally, and what it returns is the
  input state itself. No error is raised for an illegal action.
\<close>

theorem C1_illegal_action_returns_state:
  "mv \<notin> set (NMensMorris_actions state) \<Longrightarrow>
   NMensMorris_result self state mv = Some (Inr state)"
  by (simp add: NMensMorris_actions_def result_illegal)

theorem C1_illegal_action_returns_state_witness:
  "NMensMorris_result NMensMorris_default two_moves_state (3, 3) = Some (Inr two_moves_state)"
  using C1_illegal_action_returns_state [of "(3, 3)" two_moves_state NMensMorris_default]
  by (simp add: NMensMorris_actions_def two_moves_state_def)

text \<open>
  The claim as stated fails: on the initial state, whose legal actions are empty, the
  action \<open>(1, 1)\<close> is illegal, and \<open>result\<close> returns a state instead of failing.
\<close>

theorem C1_counterexample:
  "(1, 1) \<notin> set (NMensMorris_actions (nmm_initial NMensMorris_default)) \<and>
   NMensMorris_result NMensMorris_default (nmm_initial NMensMorris_default) (1, 1)
     = Some (Inr (nmm_initial NMensMorris_default))"
  by (simp add: NMensMorris_actions_def NMensMorris_default_def NMensMorris_init_def
      NMensMorris_result_def ret_def)

text \<open>
  Claim C2: \<open>game\<close> is not an attribute of a GameState, so for a state with a non-empty
  moves collection, \<open>result\<close> on any move of the collection raises \<open>AttributeError\<close>;
  and whenever \<open>result\<close> returns normally, the move was not in the collection and the
  state returned is the input state.
\<close>

theorem C2_legal_move_raises_AttributeError:
  "state_moves state \<noteq> [] \<Longrightarrow>
   GameState_getattr state ''game'' = Some (Inl AttributeError) \<and>
   (\<forall>mv \<in> set (state_moves state).
      NMensMorris_result self state mv = Some (Inl AttributeError)) \<and>
   (\<forall>mv s'. NMensMorris_result self state mv = Some (Inr s') \<longrightarrow>
      mv \<notin> set (state_moves state) \<and> s' = state)"
proof (intro conjI ballI allI impI)
  show "GameState_getattr state ''game'' = Some (Inl AttributeError)"
    by (rule getattr_game)
next
  fix mv assume "mv \<in> set (state_moves state)"
  then show "NMensMorris_result self state mv = Some (Inl AttributeError)"
    by (rule result_legal)
next
  fix mv s' assume r: "NMensMorris_result self state mv = Some (Inr s')"
  show "mv \<notin> set (state_moves state)"
  proof
    assume "mv \<in> set (state_moves state)"
    then have "NMensMorris_result self state mv = Some (Inl AttributeError)"
      by (rule result_legal)
    with r show False by simp
  qed
  then have "NMensMorris_result self state mv = Some (Inr state)"
    by (rule result_illegal)
  with r show "s' = state" by simp
qed

theorem C2_legal_move_raises_AttributeError_witness:
  "NMensMorris_result NMensMorris_default two_moves_state (1, 2) = Some (Inl AttributeError) \<and>
   NMensMorris_result NMensMorris_default two_moves_state (3, 3) = Some (Inr two_moves_state)"
proof -
  have ne: "state_moves two_moves_state \<noteq> []"
    by (simp add: two_moves_state_def)
  have mem: "(1, 2) \<in> set (state_moves two_moves_state)"
    by (simp add: two_moves_state_def)
  have "NMensMorris_result NMensMorris_default two_moves_state (1, 2) = Some (Inl AttributeError)"
    using C2_legal_move_raises_AttributeError [OF ne, of NMensMorris_default] mem by blast
  moreover have "NMensMorris_result NMensMorris_default two_moves_state (3, 3)
      = Some (Inr two_moves_state)"
    by (simp add: result_illegal two_moves_state_def)
  ultimately show ?thesis by simp
qed

text \<open>
  Claim C9: the initial state that the constructor of NMensMorris builds has an empty
  moves collection; its actions are empty and \<open>terminal_test\<close> holds of it.
\<close>

theorem C9_initial_state_is_terminal:
  "state_moves (nmm_initial (NMensMorris_init h v k)) = [] \<and>
   NMensMorris_actions (nmm_initial (NMensMorris_init h v k)) = [] \<and>
   NMensMorris_terminal_test (nmm_initial (NMensMorris_init h v k))"
  by (simp add: NMensMorris_init_def NMensMorris_actions_def NMensMorris_terminal_test_def)

theorem C9_initial_state_is_terminal_witness:
  "NMensMorris_actions (nmm_initial NMensMorris_default) = [] \<and>
   NMensMorris_terminal_test (nmm_initial NMensMorris_default)"
  using C9_initial_state_is_terminal [of 3 3 3]
  by (simp add: NMensMorris_default_def)

section \<open>The searches on a state without actions\<close>

lemma minmax_decision_no_actions:
  "actions g state = [] \<Longrightarrow> minmax_decision g fuel state = Some (Inl ValueError)"
  by (simp add: minmax_decision_def py_max_key_def raise_def)

lemma alpha_beta_search_no_actions:
  "actions g state = [] \<Longrightarrow> alpha_beta_search g fuel state = Some (Inr None)"
  by (simp add: alpha_beta_search_def ret_def)

lemma alpha_beta_cutoff_search_no_actions:
  "actions g state = [] \<Longrightarrow>
   alpha_beta_cutoff_search g fuel state d cutoff_test eval_fn = Some (Inr None)"
  by (simp add: alpha_beta_cutoff_search_def ret_def)

lemma expect_minmax_no_actions:
  "actions g state = [] \<Longrightarrow> expect_minmax g fuel state = Some (Inr None)"
  by (simp add: expect_minmax_def py_max_key_default_def ret_def)

lemma NMensMorris_initial_actions:
  "actions (NMensMorris_game NMensMorris_default) (nmm_initial NMensMorris_default) = []"
  by (simp add: NMensMorris_game_def NMensMorris_default_def NMensMorris_init_def
      NMensMorris_actions_def)

lemma dice_game_actions:
  "actions dice_game 0 = [''b'', ''a'']"
  "actions dice_game (Suc 0) = []"
  "actions dice_game 3 = [''w'']"
  "actions dice_game 4 = [''w'']"
  by (simp_all add: dice_game_def)

text \<open>
  Claim C3, evaluated where it fails: on the initial state of NMensMorris, which has no
  actions, \<open>minmax_decision\<close> raises \<open>ValueError\<close> (its \<open>max\<close> has no \<open>default\<close>), while
  \<open>alpha_beta_search\<close> and \<open>alpha_beta_cutoff_search\<close> return \<open>None\<close>; \<open>expect_minmax\<close>
  returns \<open>None\<close> on a state without actions of the stochastic example game.
\<close>

theorem C3_minmax_decision_raises_without_actions:
  "actions (NMensMorris_game NMensMorris_default) (nmm_initial NMensMorris_default) = [] \<and>
   minmax_decision (NMensMorris_game NMensMorris_default) fuel (nmm_initial NMensMorris_default)
     = Some (Inl ValueError) \<and>
   alpha_beta_search (NMensMorris_game NMensMorris_default) fuel (nmm_initial NMensMorris_default)
     = Some (Inr None) \<and>
   alpha_beta_cutoff_search (NMensMorris_game NMensMorris_default) fuel
       (nmm_initial NMensMorris_default) 4 None None
     = Some (Inr None) \<and>
   expect_minmax dice_game fuel 1 = Some (Inr None)"
  by (simp add: NMensMorris_initial_actions minmax_decision_no_actions
      alpha_beta_search_no_actions alpha_beta_cutoff_search_no_actions
      expect_minmax_no_actions dice_game_actions)

section \<open>expect_minmax on the stochastic example game\<close>

lemma dice_chance_node_w:
  "chance_node dice_game ''X'' n 3 ''w'' = ret (Num 3)"
  "chance_node dice_game ''X'' n 4 ''w'' = ret (Num 3)"
  by (cases n; simp add: dice_game_def)+

lemma dice_max_value:
  "expect_max_value dice_game ''X'' n 3 = ret (Num 3)"
  "expect_max_value dice_game ''X'' n 4 = ret (Num 3)"
  by (simp_all add: dice_chance_node_w dice_game_actions py_max_def)

lemma dice_chance_node_a: "chance_node dice_game ''X'' (Suc n) 0 ''a'' = ret (Num (3 / 2))"
proof -
  have r: "result dice_game 0 ''a'' = ret 2"
    by (simp add: dice_game_def)
  have t: "\<not> terminal_test dice_game 2"
    by (simp add: dice_game_def)
  have c: "chances dice_game 2 = [0, 1]"
    by (simp add: dice_game_def)
  have o: "\<And>s c. outcome dice_game s c = (if c = 0 then 3 else 4)"
    by (simp add: dice_game_def)
  have m: "\<And>s. to_move dice_game s = ''X''"
    by (simp add: dice_game_def)
  have p: "\<And>c. probability dice_game c = 1 / 2"
    by (simp add: dice_game_def)
  show ?thesis
    by (simp add: r t c o m p dice_max_value py_div_def del: expect_max_value.simps)
qed

lemma dice_chance_node_b: "chance_node dice_game ''X'' n 0 ''b'' = ret (Num 2)"
  by (cases n) (simp_all add: dice_game_def)

text \<open>
  Claim C5, evaluated where it fails. In the example game action \<open>a\<close> leads to a coin
  throw whose two outcomes are each worth 3 to X (by the code's own \<open>max_value\<close>), so
  its expected utility is 3; action \<open>b\<close> is worth 2. \<open>chance_node\<close> divides the weighted
  sum by the number of chances and values \<open>a\<close> at 3/2, and \<open>expect_minmax\<close> returns \<open>b\<close>.
\<close>

theorem C5_expect_minmax_not_expected_utility:
  "expect_minmax dice_game (Suc n) 0 = Some (Inr (Some ''b'')) \<and>
   chance_node dice_game ''X'' (Suc n) 0 ''b'' = Some (Inr (Num 2)) \<and>
   chance_node dice_game ''X'' (Suc n) 0 ''a'' = Some (Inr (Num (3 / 2))) \<and>
   result dice_game 0 ''a'' = Some (Inr 2) \<and>
   spec_expected_utility dice_game
     (\<lambda>s. num_of (expect_max_value dice_game ''X'' n s)) 2 = 3"
proof -
  have m: "to_move dice_game 0 = ''X''"
    by (simp add: dice_game_def)
  have "expect_minmax dice_game (Suc n) 0 = ret (Some ''b'')"
    by (simp add: expect_minmax_def py_max_key_default_def m dice_game_actions
        dice_chance_node_a dice_chance_node_b del: chance_node.simps)
  moreover have "spec_expected_utility dice_game
     (\<lambda>s. num_of (expect_max_value dice_game ''X'' n s)) 2 = 3"
  proof -
    have c: "chances dice_game 2 = [0, 1]"
      by (simp add: dice_game_def)
    have o: "\<And>s c. outcome dice_game s c = (if c = 0 then 3 else 4)"
      by (simp add: dice_game_def)
    have p: "\<And>c. probability dice_game c = 1 / 2"
      by (simp add: dice_game_def)
    show ?thesis
      by (simp add: spec_expected_utility_def c o p dice_max_value num_of_def ret_def
          del: expect_max_value.simps)
  qed
  moreover have "result dice_game 0 ''a'' = Some (Inr 2)"
    by (simp add: dice_game_def ret_def)
  ultimately show ?thesis
    using dice_chance_node_a [of n] dice_chance_node_b [of "Suc n"]
    by (simp add: ret_def)
qed

section \<open>The board: check3inRow and the removal of pieces\<close>

lemma cells_eq:
  "cells = [[(0, 0), (0, 3), (0, 6)], [(1, 1), (1, 3), (1, 5)], [(2, 2), (2, 3), (2, 4)],
            [(3, 0), (3, 1), (3, 2), (3, 4), (3, 5), (3, 6)], [(4, 2), (4, 3), (4, 4)],
            [(5, 1), (5, 3), (5, 5)], [(6, 0), (6, 3), (6, 6)]]"
  by (simp add: cells_def is_cell_def upto.simps)

lemma check3_loop_X:
  "check3_loop g ''X'' p ms =
     (if list_ex (\<lambda>m. p \<in> set m \<and> list_all (\<lambda>locs. locs \<in> set (poses (player1 g))) m) ms
      then (True, g\<lparr>player1 := (player1 g)\<lparr>numWin := numWin (player1 g) + 1\<rparr>\<rparr>)
      else (False, g))"
  by (induction ms) auto

lemma check3_loop_O:
  "check3_loop g ''O'' p ms =
     (if list_ex (\<lambda>m. p \<in> set m \<and> list_all (\<lambda>locs. locs \<in> set (poses (player2 g))) m) ms
      then (True, g\<lparr>player2 := (player2 g)\<lparr>numWin := numWin (player2 g) + 1\<rparr>\<rparr>)
      else (False, g))"
  by (induction ms) auto

lemma check3inRow_X:
  "check3inRow g ''X'' p =
     (if in_3inRow (poses (player1 g)) p
      then (True, g\<lparr>player1 := (player1 g)\<lparr>numWin := numWin (player1 g) + 1\<rparr>\<rparr>)
      else (False, g))"
  by (simp add: check3inRow_def in_3inRow_def check3_loop_X)

lemma check3inRow_O:
  "check3inRow g ''O'' p =
     (if in_3inRow (poses (player2 g)) p
      then (True, g\<lparr>player2 := (player2 g)\<lparr>numWin := numWin (player2 g) + 1\<rparr>\<rparr>)
      else (False, g))"
  by (simp add: check3inRow_def in_3inRow_def check3_loop_O)

lemma matches_distinct3:
  "m \<in> set plausible_matches \<Longrightarrow> distinct m \<and> length m = 3"
  by (auto simp add: plausible_matches_def)

lemma in_row_outsider_length:
  assumes "in_3inRow ps p" and "q \<in> set ps" and "\<not> in_3inRow ps q"
  shows "3 < length ps"
proof -
  from assms(1) obtain m where m: "m \<in> set plausible_matches" "p \<in> set m" "set m \<subseteq> set ps"
    by (auto simp add: in_3inRow_def list_ex_iff list_all_iff)
  have "q \<notin> set m"
  proof
    assume "q \<in> set m"
    with m have "in_3inRow ps q"
      by (auto simp add: in_3inRow_def list_ex_iff list_all_iff)
    with assms(3) show False by simp
  qed
  moreover have "card (set m) = 3"
    using matches_distinct3 [OF m(1)] by (simp add: distinct_card)
  ultimately have "card (insert q (set m)) = 4"
    by simp
  moreover have "insert q (set m) \<subseteq> set ps"
    using m(3) assms(2) by simp
  then have "card (insert q (set m)) \<le> card (set ps)"
    by (simp add: card_mono)
  moreover have "card (set ps) \<le> length ps"
    by (rule card_length)
  ultimately show ?thesis by simp
qed

lemma p1_remove_protected:
  assumes "p \<in> set (poses (player2 g))" "in_3inRow (poses (player2 g)) p"
    "3 < length (poses (player2 g))"
  shows "p1_remove g p = ret (Returned (g\<lparr>player2 := (player2 g)\<lparr>numWin := numWin (player2 g) + 1\<rparr>\<rparr>))"
  using assms by (simp add: p1_remove_def check3inRow_O)

lemma GameSteps_nth:
  "GameSteps ! 0 = ''Setup''" "GameSteps ! 1 = ''Move''" "GameSteps ! 2 = ''Remove''"
  "GameSteps ! Suc 0 = ''Move''"
  by (simp_all add: GameSteps_def)

lemma on_click_protected:
  assumes "step (player1 g) = ''Remove''" "p \<in> set (poses (player2 g))" "in_3inRow (poses (player2 g)) p"
    "3 < length (poses (player2 g))"
  shows "on_click g p rs = ret (g\<lparr>player2 := (player2 g)\<lparr>numWin := numWin (player2 g) + 1\<rparr>\<rparr>, rs)"
  using assms by (simp add: on_click_def p1_turn_def GameSteps_nth p1_remove_protected)

lemma choose_loop_sound:
  "choose_loop lst sol g rs = Some (Inr (sol', g', rs')) \<Longrightarrow>
   poses (player1 g') = poses (player1 g) \<and>
   \<not> (in_3inRow (poses (player1 g)) sol' \<and> 3 < length lst)"
proof (induction lst sol g rs rule: choose_loop.induct)
  case (1 lst sol g)
  then show ?case
    by (auto simp add: check3inRow_X ret_def split: if_splits)
next
  case (2 lst sol g r rs)
  show ?case
  proof (cases "in_3inRow (poses (player1 g)) sol \<and> 3 < length lst")
    case True
    let ?g1 = "g\<lparr>player1 := (player1 g)\<lparr>numWin := numWin (player1 g) + 1\<rparr>\<rparr>"
    have c: "check3inRow g ''X'' sol = (True, ?g1)"
      using True by (simp add: check3inRow_X)
    from True 2(2) have run: "choose_loop lst (lst ! (r mod length lst)) ?g1 rs = Some (Inr (sol', g', rs'))"
      by (simp add: c)
    have "poses (player1 g') = poses (player1 ?g1) \<and>
      \<not> (in_3inRow (poses (player1 ?g1)) sol' \<and> 3 < length lst)"
      using 2(1) [OF c [symmetric] _ run] True by simp
    then show ?thesis by simp
  next
    case False
    with 2(2) show ?thesis
      by (auto simp add: check3inRow_X ret_def split: if_splits)
  qed
qed

lemma chooseRandomToRemove_sound:
  assumes "chooseRandomToRemove g lst rs = Some (Inr (sol', g', rs'))"
  shows "poses (player1 g') = poses (player1 g) \<and>
   \<not> (in_3inRow (poses (player1 g)) sol' \<and> 3 < length lst)"
  using assms
  by (auto simp add: chooseRandomToRemove_def raise_def split: if_splits list.splits
      dest: choose_loop_sound)

section \<open>Moves on the board\<close>

lemma concat_cells:
  "concat cells = [(0, 0), (0, 3), (0, 6), (1, 1), (1, 3), (1, 5), (2, 2), (2, 3), (2, 4),
            (3, 0), (3, 1), (3, 2), (3, 4), (3, 5), (3, 6), (4, 2), (4, 3), (4, 4),
            (5, 1), (5, 3), (5, 5), (6, 0), (6, 3), (6, 6)]"
  by (simp add: cells_eq)

lemma move_inner_frame:
  "move_inner g start dest row = Some g' \<Longrightarrow> g' = g\<lparr>btn_text := btn_text g'\<rparr>"
  by (induction row) (auto split: if_splits)

lemma move_outer_frame:
  "move_outer g start dest row = Some (Inr (b, g')) \<Longrightarrow> g' = g\<lparr>btn_text := btn_text g'\<rparr>"
proof (induction row)
  case Nil
  then show ?case by (simp add: ret_def)
next
  case (Cons sCell row)
  show ?case
  proof (cases "sCell = start")
    case False
    with Cons show ?thesis by simp
  next
    case True
    show ?thesis
    proof (cases "btn_text g sCell = []")
      case True
      with \<open>sCell = start\<close> Cons.prems show ?thesis by (simp add: raise_def)
    next
      case False
      show ?thesis
      proof (cases "py_nth cells (fst dest)")
        case None
        with False \<open>sCell = start\<close> Cons.prems show ?thesis by simp
      next
        case (Some r)
        show ?thesis
        proof (cases r)
          case (Inl e)
          with Some False \<open>sCell = start\<close> Cons.prems show ?thesis by simp
        next
          case (Inr dest_row)
          show ?thesis
          proof (cases "move_inner g start dest dest_row")
            case None
            with Inr Some False \<open>sCell = start\<close> Cons show ?thesis by simp
          next
            case (Some g'')
            with Inr \<open>py_nth cells (fst dest) = Some r\<close> False \<open>sCell = start\<close> Cons.prems
            have "g' = g''" by (simp add: ret_def)
            with Some show ?thesis by (simp add: move_inner_frame)
          qed
        qed
      qed
    qed
  qed
qed

lemma move_frame:
  assumes "move g start dest = Some (Inr (b, g'))"
  shows "g' = g\<lparr>btn_text := btn_text g'\<rparr>"
proof (cases "dest \<notin> set (getAvailableMoves g start)")
  case True
  with assms show ?thesis by (simp add: move_def ret_def)
next
  case False
  show ?thesis
  proof (cases "py_nth cells (fst start)")
    case None
    with False assms show ?thesis by (simp add: move_def)
  next
    case (Some r)
    with False assms show ?thesis
      by (cases r) (auto simp add: move_def dest: move_outer_frame)
  qed
qed

lemma move_needs_neighbour:
  assumes "move g start dest = Some (Inr (True, g'))"
  shows "\<bar>fst dest - fst start\<bar> \<le> 1 \<and> \<bar>snd dest - snd start\<bar> \<le> 1 \<and> btn_text g dest = []"
proof -
  have "dest \<in> set (getAvailableMoves g start)"
    using assms by (auto simp add: move_def ret_def split: if_splits)
  then show ?thesis
    by (auto simp add: getAvailableMoves_def getAvailableMovesForPos_def)
qed

lemma move_far:
  assumes "1 < \<bar>fst dest - fst start\<bar> \<or> 1 < \<bar>snd dest - snd start\<bar>"
  shows "move g start dest = ret (False, g)"
proof -
  have "dest \<notin> set (getAvailableMoves g start)"
    using assms by (auto simp add: getAvailableMoves_def getAvailableMovesForPos_def)
  then show ?thesis by (simp add: move_def)
qed

text \<open>
  Claim C7, evaluated where it fails. Player 1 has exactly three pieces on the board and
  no token left to place; its piece at \<open>(0, 0)\<close> is picked and the cell \<open>(6, 6)\<close> is
  empty. \<open>move\<close> refuses the move, because \<open>(6, 6)\<close> is not a neighbour of \<open>(0, 0)\<close>, and
  the click leaves the board as it was.
\<close>

theorem C7_no_flying:
  "length (poses (player1 flying_state)) = 3 \<and> player1tokens flying_state = 0 \<and>
   (0, 0) \<in> set (poses (player1 flying_state)) \<and> btn_text flying_state (6, 6) = [] \<and>
   (6, 6) \<in> set (concat cells) \<and>
   move flying_state (0, 0) (6, 6) = Some (Inr (False, flying_state)) \<and>
   on_click flying_state (6, 6) rs = Some (Inr (flying_state, rs))"
proof -
  have m: "move flying_state (0, 0) (6, 6) = ret (False, flying_state)"
    by (rule move_far) simp
  have f: "step (player1 flying_state) = ''Move''" "picked (player1 flying_state) = Some (0, 0)"
    "poses (player1 flying_state) = [(0, 0), (0, 3), (0, 6)]"
    by (simp_all add: flying_state_def)
  have "on_click flying_state (6, 6) rs = ret (flying_state, rs)"
    by (simp add: on_click_def p1_turn_def p1_move_def m f GameSteps_nth)
  with m show ?thesis
    by (simp add: ret_def concat_cells) (simp add: flying_state_def)
qed

section \<open>The random player's draw\<close>

lemma randomMove_loop_first:
  assumes "btn_text g ((cells ! (r1 mod 7)) ! (r2 mod length (cells ! (r1 mod 7)))) = []"
  shows "randomMove_loop (Suc k) g (r1 # r2 # rs) =
     ret ((int (r1 mod 7), int (r2 mod length (cells ! (r1 mod 7)))), rs)"
  using assms by (simp add: Let_def)

lemma randomMove_first:
  assumes "btn_text g ((cells ! (r1 mod 7)) ! (r2 mod length (cells ! (r1 mod 7)))) = []"
  shows "randomMove g (r1 # r2 # rs) =
     ret ((int (r1 mod 7), int (r2 mod length (cells ! (r1 mod 7)))), rs)"
proof -
  have e: "(50::nat) = Suc 49"
    by simp
  show ?thesis
    unfolding randomMove_def e by (rule randomMove_loop_first [OF assms])
qed

lemmas click_eval = on_click_def p1_turn_def p2_turn_def GameSteps_nth p1_setup_def p1_place_def
  p2_setup_def p2_place_def set_text_def check3inRow_X check3inRow_O in_3inRow_def
  plausible_matches_def flip_to_move_def set_step1_def

section \<open>Removal of pieces\<close>

lemma remove_state_fields:
  "step (player1 remove_state) = ''Remove''"
  "poses (player1 remove_state) = [(0, 0), (1, 1), (6, 0), (2, 2)]"
  "poses (player2 remove_state) = [(0, 3), (1, 3), (2, 3), (6, 6)]"
  "numWin (player2 remove_state) = 1"
  "numWin (player1 remove_state) = 1"
  by (simp_all add: remove_state_def)

lemma remove_state_rows:
  "in_3inRow [(0, 3), (1, 3), (2, 3), (6, 6)] (0, 3)"
  "\<not> in_3inRow [(0, 3), (1, 3), (2, 3), (6, 6)] (6, 6)"
  "in_3inRow [(0, 0), (1, 1), (6, 0), (2, 2)] (0, 0)"
  "\<not> in_3inRow [(0, 0), (1, 1), (6, 0), (2, 2)] (6, 0)"
  by (simp_all add: in_3inRow_def plausible_matches_def)

text \<open>
  Claim C6, as the code has it: the rows that protect a piece are the triples of the
  table \<open>plausible_matches\<close> of \<open>check3inRow\<close>. While a piece is to be removed and at
  least one piece of the opponent lies outside every completed triple of that table, no
  piece of a completed triple of the table is removed. When player 1 removes (its step is
  \<open>Remove\<close>), a click on such a piece of player 2 returns with player 2's pieces and the
  board as they were; when player 2 removes, the piece \<open>chooseRandomToRemove\<close> returns
  is not in a completed triple of player 1.
\<close>

theorem C6_mill_protection:
  "(step (player1 g) = ''Remove'' \<and> p \<in> set (poses (player2 g)) \<and>
    in_3inRow (poses (player2 g)) p \<and>
    q \<in> set (poses (player2 g)) \<and> \<not> in_3inRow (poses (player2 g)) q \<longrightarrow>
      (\<exists>g'. on_click g p rs = Some (Inr (g', rs)) \<and>
            poses (player2 g') = poses (player2 g) \<and> btn_text g' = btn_text g)) \<and>
   (chooseRandomToRemove g (poses (player1 g)) rs = Some (Inr (sol, gb, rsb)) \<and>
    qb \<in> set (poses (player1 g)) \<and> \<not> in_3inRow (poses (player1 g)) qb \<longrightarrow>
      \<not> in_3inRow (poses (player1 g)) sol)"
proof (intro conjI impI)
  assume a: "step (player1 g) = ''Remove'' \<and> p \<in> set (poses (player2 g)) \<and>
    in_3inRow (poses (player2 g)) p \<and>
    q \<in> set (poses (player2 g)) \<and> \<not> in_3inRow (poses (player2 g)) q"
  then have "3 < length (poses (player2 g))"
    using in_row_outsider_length by blast
  with a have "on_click g p rs =
      ret (g\<lparr>player2 := (player2 g)\<lparr>numWin := numWin (player2 g) + 1\<rparr>\<rparr>, rs)"
    by (simp add: on_click_protected)
  then show "\<exists>g'. on_click g p rs = Some (Inr (g', rs)) \<and>
            poses (player2 g') = poses (player2 g) \<and> btn_text g' = btn_text g"
    by (simp add: ret_def)
next
  assume b: "chooseRandomToRemove g (poses (player1 g)) rs = Some (Inr (sol, gb, rsb)) \<and>
    qb \<in> set (poses (player1 g)) \<and> \<not> in_3inRow (poses (player1 g)) qb"
  show "\<not> in_3inRow (poses (player1 g)) sol"
  proof
    assume s: "in_3inRow (poses (player1 g)) sol"
    with b have "3 < length (poses (player1 g))"
      using in_row_outsider_length by blast
    with s b show False
      using chooseRandomToRemove_sound by blast
  qed
qed

lemma choose_remove_state:
  "chooseRandomToRemove remove_state (poses (player1 remove_state)) [0, 2] =
     Some (Inr ((6, 0),
       remove_state\<lparr>player1 := (player1 remove_state)\<lparr>numWin := 2\<rparr>\<rparr>, []))"
  by (simp add: chooseRandomToRemove_def remove_state_fields check3inRow_X remove_state_rows
      ret_def)

theorem C6_mill_protection_witness:
  "(\<exists>g'. on_click remove_state (0, 3) [] = Some (Inr (g', [])) \<and>
         poses (player2 g') = [(0, 3), (1, 3), (2, 3), (6, 6)] \<and>
         btn_text g' = btn_text remove_state) \<and>
   chooseRandomToRemove remove_state (poses (player1 remove_state)) [0, 2] =
     Some (Inr ((6, 0), remove_state\<lparr>player1 := (player1 remove_state)\<lparr>numWin := 2\<rparr>\<rparr>, [])) \<and>
   \<not> in_3inRow (poses (player1 remove_state)) (6, 0)"
  using C6_mill_protection [where g = remove_state and p = "(0, 3)" and q = "(6, 6)"
      and rs = "[0, 2]" and sol = "(6, 0)" and qb = "(6, 0)" and rsb = "[]"
      and gb = "remove_state\<lparr>player1 := (player1 remove_state)\<lparr>numWin := 2\<rparr>\<rparr>"]
    C6_mill_protection [where g = remove_state and p = "(0, 3)" and q = "(6, 6)" and rs = "[]"]
    choose_remove_state
  by (simp add: remove_state_fields remove_state_rows)

lemma side_row_reached:
  "run_clicks BoardGui_init [(2, 2), (2, 3), (3, 5), (5, 1), (2, 4)] [0, 0, 0, 1, 0, 2, 6, 2]
     = Some (Inr (side_row_state, []))"
  apply (simp add: click_eval BoardGui_init_def NMMPlayer_init_def PlayerType_def)
  apply (subst randomMove_first)
   apply (simp add: cells_eq)
  apply (simp add: cells_eq py_nth_def click_eval)
  apply (subst randomMove_first)
   apply (simp add: cells_eq)
  apply (simp add: cells_eq py_nth_def click_eval)
  apply (subst randomMove_first)
   apply (simp add: cells_eq)
  apply (simp add: cells_eq py_nth_def click_eval)
  apply (subst randomMove_first)
   apply (simp add: cells_eq)
  apply (simp add: cells_eq py_nth_def click_eval)
  apply (simp add: ret_def side_row_state_def)
  done

lemma side_row_p1_turn:
  "p1_turn side_row_state (0, 0) = ret (Fallthrough
     (side_row_state\<lparr>btn_text := (btn_text side_row_state)((0, 0) := []),
        player1 := (player1 side_row_state)\<lparr>step := ''Setup''\<rparr>,
        player2 := (player2 side_row_state)\<lparr>poses := [(0, 3), (0, 6), (6, 6)]\<rparr>\<rparr>))"
  by (simp add: p1_turn_def GameSteps_nth p1_remove_def check3inRow_O in_3inRow_def
      plausible_matches_def set_text_def check_win_def set_step1_def side_row_state_def)

lemma side_row_click:
  "on_click side_row_state (0, 0) [6, 0] = Some (Inr (side_row_after, []))"
  apply (simp add: on_click_def side_row_p1_turn p2_turn_def flip_to_move_def)
  apply (subst randomMove_first)
   apply (simp add: cells_eq side_row_state_def)
  apply (simp add: cells_eq py_nth_def)
  apply (simp add: side_row_state_def GameSteps_nth p2_setup_def p2_place_def set_text_def
      check3inRow_O in_3inRow_def plausible_matches_def flip_to_move_def ret_def
      side_row_after_def)
  done

text \<open>
  Claim C6 as stated, with the straight lines of the board of the specification, fails.
  Five clicks of player 1 on the initial board, with player 2 drawing \<open>(0, 0)\<close>, \<open>(0, 3)\<close>,
  \<open>(0, 6)\<close> and \<open>(6, 6)\<close>, lead to a state in which player 1 is to remove. Player 2 holds
  the side \<open>(0, 0), (0, 3), (0, 6)\<close> of the outer square, a line of the board, and the
  piece at \<open>(6, 6)\<close>, which is in no completed line. The table of \<open>check3inRow\<close> does not
  list that side, so a click on \<open>(0, 0)\<close> removes the piece: it is gone from player 2's
  pieces and from the board, and player 2 has placed its next token.
\<close>

theorem C6_counterexample:
  "run_clicks BoardGui_init [(2, 2), (2, 3), (3, 5), (5, 1), (2, 4)] [0, 0, 0, 1, 0, 2, 6, 2]
     = Some (Inr (side_row_state, [])) \<and>
   step (player1 side_row_state) = ''Remove'' \<and>
   (0, 0) \<in> set (poses (player2 side_row_state)) \<and>
   in_spec_mill (poses (player2 side_row_state)) (0, 0) \<and>
   (6, 6) \<in> set (poses (player2 side_row_state)) \<and>
   \<not> in_spec_mill (poses (player2 side_row_state)) (6, 6) \<and>
   on_click side_row_state (0, 0) [6, 0] = Some (Inr (side_row_after, [])) \<and>
   (0, 0) \<notin> set (poses (player2 side_row_after)) \<and>
   btn_text side_row_after (0, 0) = []"
  using side_row_click side_row_reached
  by (simp add: in_spec_mill_def spec_mills_def side_row_state_def side_row_after_def)

text \<open>
  Claim C10: \<open>check3inRow\<close> is not a pure query. Whenever the queried position lies in
  a completed triple of the player asked about, the call returns \<open>True\<close> and a state whose
  \<open>numWin\<close> for that player is one higher. This includes the call that tests whether a
  removal target is protected: the rejected click changes nothing but player 2's
  \<open>numWin\<close>, although no action was played, so \<open>numWin\<close> outgrows the number of
  actions that completed a 3-in-a-row.
\<close>

theorem C10_check3inRow_counts_queries:
  "(in_3inRow (poses (player1 g)) p \<longrightarrow>
      check3inRow g ''X'' p =
        (True, g\<lparr>player1 := (player1 g)\<lparr>numWin := numWin (player1 g) + 1\<rparr>\<rparr>)) \<and>
   (in_3inRow (poses (player2 g)) p \<longrightarrow>
      check3inRow g ''O'' p =
        (True, g\<lparr>player2 := (player2 g)\<lparr>numWin := numWin (player2 g) + 1\<rparr>\<rparr>)) \<and>
   (step (player1 g) = ''Remove'' \<and> p \<in> set (poses (player2 g)) \<and>
    in_3inRow (poses (player2 g)) p \<and> 3 < length (poses (player2 g)) \<longrightarrow>
      on_click g p rs =
        Some (Inr (g\<lparr>player2 := (player2 g)\<lparr>numWin := numWin (player2 g) + 1\<rparr>\<rparr>, rs)))"
  by (simp add: check3inRow_X check3inRow_O on_click_protected ret_def)

theorem C10_check3inRow_counts_queries_witness:
  "on_click remove_state (0, 3) [] =
     Some (Inr (remove_state\<lparr>player2 := (player2 remove_state)\<lparr>numWin := 2\<rparr>\<rparr>, [])) \<and>
   poses (player2 (remove_state\<lparr>player2 := (player2 remove_state)\<lparr>numWin := 2\<rparr>\<rparr>))
     = poses (player2 remove_state) \<and>
   numWin (player2 remove_state) = 1 \<and>
   check3inRow remove_state ''X'' (0, 0) =
     (True, remove_state\<lparr>player1 := (player1 remove_state)\<lparr>numWin := 2\<rparr>\<rparr>)"
  using C10_check3inRow_counts_queries [where g = remove_state and p = "(0, 3)" and rs = "[]"]
    C10_check3inRow_counts_queries [where g = remove_state and p = "(0, 0)"]
  by (simp add: remove_state_fields remove_state_rows)

section \<open>Completing a 3-in-a-row\<close>

lemma p1_place_fields:
  assumes "1 \<le> player1tokens g"
  shows "poses (player1 (p1_place g p)) = poses (player1 g) @ [p]"
    "gui_to_move (p1_place g p) = gui_to_move g"
    "player2 (p1_place g p) = player2 g"
  using assms by (auto simp add: p1_place_def set_text_def)

lemma set_step1_fields:
  "step (player1 (set_step1 g st)) = st"
  "gui_to_move (set_step1 g st) = gui_to_move g"
  "player2 (set_step1 g st) = player2 g"
  "poses (player1 (set_step1 g st)) = poses (player1 g)"
  by (simp_all add: set_step1_def)

lemma on_click_place_mill:
  assumes "step (player1 g) = ''Setup''" "gui_to_move g = ''X''" "1 \<le> player1tokens g"
    "in_3inRow (poses (player1 g) @ [p]) p"
  shows "\<exists>g'. on_click g p rs = Some (Inr (g', rs)) \<and> step (player1 g') = ''Remove'' \<and>
     gui_to_move g' = ''X'' \<and> player2 g' = player2 g \<and>
     poses (player1 g') = poses (player1 g) @ [p]"
  using assms
  by (simp add: on_click_def p1_turn_def GameSteps_nth p1_setup_def check3inRow_X
      p1_place_fields set_step1_fields ret_def)

lemma on_click_move_mill:
  assumes "step (player1 g) = ''Move''" "gui_to_move g = ''X''"
    "picked (player1 g) = Some start" "start \<in> set (poses (player1 g))"
    "p \<notin> set (poses (player1 g))"
    "move g start p = Some (Inr (True, g1))"
    "in_3inRow (remove1 start (poses (player1 g)) @ [p]) p"
  shows "\<exists>g'. on_click g p rs = Some (Inr (g', rs)) \<and> step (player1 g') = ''Remove'' \<and>
     gui_to_move g' = ''X'' \<and> player2 g' = player2 g \<and>
     poses (player1 g') = remove1 start (poses (player1 g)) @ [p]"
proof -
  have fr: "g1 = g\<lparr>btn_text := btn_text g1\<rparr>"
    using assms(6) by (rule move_frame)
  have f: "player1 g1 = player1 g" "player2 g1 = player2 g" "gui_to_move g1 = gui_to_move g"
    by (subst fr, simp)+
  have m: "move g start p = ret (True, g1)"
    using assms(6) by (simp add: ret_def)
  show ?thesis
    using assms(1-5,7)
    by (simp add: on_click_def p1_turn_def GameSteps_nth p1_move_def m f check3inRow_X
        set_step1_fields ret_def)
qed

lemma ai_mill_state_p1_turn: "p1_turn ai_mill_state (6, 6) = ret (Fallthrough
   (ai_mill_state\<lparr>btn_text := (btn_text ai_mill_state)((6, 6) := ''X''),
       player1 := (player1 ai_mill_state)\<lparr>poses := [(0, 0), (6, 6)]\<rparr>, player1tokens := 7\<rparr>))"
  by (simp add: p1_turn_def GameSteps_nth p1_setup_def p1_place_def set_text_def check3inRow_X
       in_3inRow_def plausible_matches_def ai_mill_state_def)

lemma ai_mill_click:
  "on_click ai_mill_state (6, 6) [2, 1, 0] = Some (Inr (ai_mill_after, []))"
  apply (simp add: on_click_def ai_mill_state_p1_turn p2_turn_def flip_to_move_def)
  apply (subst randomMove_first)
   apply (simp add: cells_eq ai_mill_state_def)
  apply (simp add: cells_eq py_nth_def)
  apply (simp add: ai_mill_state_def GameSteps_nth p2_setup_def p2_place_def set_text_def check3inRow_O 
     in_3inRow_def plausible_matches_def)
  apply (simp add: p2_take_def chooseRandomToRemove_def check3inRow_X in_3inRow_def plausible_matches_def
    getButton_set_text_def concat_cells set_text_def check_win_def set_step2_def GameSteps_nth ret_def ai_mill_after_def flip_to_move_def)
  done

lemma side_place_reached:
  "run_clicks BoardGui_init [(0, 0), (0, 3)] [6, 2, 6, 1] = Some (Inr (side_place_state, []))"
  apply (simp add: click_eval BoardGui_init_def NMMPlayer_init_def PlayerType_def)
  apply (subst randomMove_first)
   apply (simp add: cells_eq)
  apply (simp add: cells_eq py_nth_def click_eval)
  apply (subst randomMove_first)
   apply (simp add: cells_eq)
  apply (simp add: cells_eq py_nth_def click_eval)
  apply (simp add: ret_def side_place_state_def)
  done

lemma side_place_p1_turn:
  "p1_turn side_place_state (0, 6) = ret (Fallthrough
     (side_place_state\<lparr>btn_text := (btn_text side_place_state)((0, 6) := ''X''),
        player1 := (player1 side_place_state)\<lparr>poses := [(0, 0), (0, 3), (0, 6)]\<rparr>,
        player1tokens := 6\<rparr>))"
  by (simp add: p1_turn_def GameSteps_nth p1_setup_def p1_place_def set_text_def check3inRow_X
      in_3inRow_def plausible_matches_def side_place_state_def)

lemma side_place_click:
  "on_click side_place_state (0, 6) [4, 1] = Some (Inr (side_place_after, []))"
  apply (simp add: on_click_def side_place_p1_turn p2_turn_def flip_to_move_def)
  apply (subst randomMove_first)
   apply (simp add: cells_eq side_place_state_def)
  apply (simp add: cells_eq py_nth_def)
  apply (simp add: side_place_state_def GameSteps_nth p2_setup_def p2_place_def set_text_def
      check3inRow_O in_3inRow_def plausible_matches_def flip_to_move_def ret_def
      side_place_after_def)
  done

text \<open>
  Claim C8 as stated fails in two ways.

  It fails for player 2. Player 1 places at \<open>(6, 6)\<close> without completing a row; player 2
  then draws \<open>(2, 3)\<close> and completes the line \<open>(0, 3), (1, 3), (2, 3)\<close>, a line of the board
  of the specification and a triple of the table of \<open>check3inRow\<close>. The handler removes a
  piece of player 1 in the same call and hands the turn back: in the state that results
  it is X to move and no player's step is \<open>Remove\<close>.

  It fails for player 1 on the lines of the board that the table of \<open>check3inRow\<close> does
  not list. After two clicks on the initial board player 1 holds \<open>(0, 0)\<close> and \<open>(0, 3)\<close>; its
  placement at \<open>(0, 6)\<close> completes the side \<open>(0, 0), (0, 3), (0, 6)\<close> of the outer square.
  The handler returns with player 1's step still \<open>Setup\<close>, no removal pending, and with
  player 2 having placed its next token at \<open>(4, 3)\<close>: the turn has passed.
\<close>

theorem C8_counterexample:
  "on_click ai_mill_state (6, 6) [2, 1, 0] = Some (Inr (ai_mill_after, [])) \<and>
   in_spec_mill (poses (player2 ai_mill_after)) (2, 3) \<and>
   in_3inRow (poses (player2 ai_mill_after)) (2, 3) \<and>
   (2, 3) \<notin> set (poses (player2 ai_mill_state)) \<and>
   gui_to_move ai_mill_after = ''X'' \<and>
   step (player1 ai_mill_after) = ''Setup'' \<and> step (player2 ai_mill_after) = ''Setup'' \<and>
   poses (player1 ai_mill_after) = [(6, 6)] \<and>
   run_clicks BoardGui_init [(0, 0), (0, 3)] [6, 2, 6, 1] = Some (Inr (side_place_state, [])) \<and>
   step (player1 side_place_state) = ''Setup'' \<and> gui_to_move side_place_state = ''X'' \<and>
   in_spec_mill (poses (player1 side_place_state) @ [(0, 6)]) (0, 6) \<and>
   on_click side_place_state (0, 6) [4, 1] = Some (Inr (side_place_after, [])) \<and>
   poses (player1 side_place_after) = poses (player1 side_place_state) @ [(0, 6)] \<and>
   step (player1 side_place_after) = ''Setup'' \<and> step (player2 side_place_after) = ''Setup'' \<and>
   poses (player2 side_place_after) = poses (player2 side_place_state) @ [(4, 3)]"
  using ai_mill_click side_place_click side_place_reached
  by (simp add: in_spec_mill_def spec_mills_def in_3inRow_def plausible_matches_def
      ai_mill_state_def ai_mill_after_def side_place_state_def side_place_after_def)

text \<open>
  Claim C8, as the code has it: when player 1, with X to move, completes a triple of the
  table \<open>plausible_matches\<close> of \<open>check3inRow\<close> by placing a token or by moving the picked
  piece, \<open>on_click\<close> returns with player 1's step set to \<open>Remove\<close> (a removal from
  player 2 is pending), with X still to move, and without player 2 having moved or drawn
  a random number.
\<close>

theorem C8_human_mill_keeps_turn:
  "(step (player1 g) = ''Setup'' \<and> gui_to_move g = ''X'' \<and> 1 \<le> player1tokens g \<and>
    in_3inRow (poses (player1 g) @ [p]) p \<longrightarrow>
      (\<exists>g'. on_click g p rs = Some (Inr (g', rs)) \<and> step (player1 g') = ''Remove'' \<and>
            gui_to_move g' = ''X'' \<and> player2 g' = player2 g \<and>
            poses (player1 g') = poses (player1 g) @ [p])) \<and>
   (step (player1 g) = ''Move'' \<and> gui_to_move g = ''X'' \<and>
    picked (player1 g) = Some start \<and> start \<in> set (poses (player1 g)) \<and>
    p \<notin> set (poses (player1 g)) \<and> move g start p = Some (Inr (True, gm)) \<and>
    in_3inRow (remove1 start (poses (player1 g)) @ [p]) p \<longrightarrow>
      (\<exists>g'. on_click g p rs = Some (Inr (g', rs)) \<and> step (player1 g') = ''Remove'' \<and>
            gui_to_move g' = ''X'' \<and> player2 g' = player2 g \<and>
            poses (player1 g') = remove1 start (poses (player1 g)) @ [p]))"
  using on_click_place_mill [of g p rs] on_click_move_mill [of g start p gm rs]
  by blast

lemma move_state_move:
  "move move_state (2, 3) (2, 2) =
     Some (Inr (True, move_state\<lparr>btn_text := (btn_text move_state)((2, 2) := ''X'', (2, 3) := [])\<rparr>))"
proof -
  have a: "getAvailableMoves move_state (2, 3) = [(1, 3), (2, 2), (2, 4), (3, 2), (3, 4)]"
    by (simp add: getAvailableMoves_def getAvailableMovesForPos_def concat_cells move_state_def)
  have b: "btn_text move_state (2, 3) = ''X''" "btn_text move_state (2, 2) = []"
    by (simp_all add: move_state_def)
  show ?thesis
    by (simp add: move_def a py_nth_def cells_eq b ret_def)
qed

theorem C8_human_mill_keeps_turn_witness:
  "(\<exists>g'. on_click place_state (2, 2) [] = Some (Inr (g', [])) \<and> step (player1 g') = ''Remove'' \<and>
         gui_to_move g' = ''X'' \<and> player2 g' = player2 place_state \<and>
         poses (player1 g') = [(0, 0), (1, 1), (2, 2)]) \<and>
   (\<exists>g'. on_click move_state (2, 2) [] = Some (Inr (g', [])) \<and> step (player1 g') = ''Remove'' \<and>
         gui_to_move g' = ''X'' \<and> player2 g' = player2 move_state \<and>
         poses (player1 g') = [(0, 0), (1, 1), (2, 2)])"
proof -
  have r: "in_3inRow [(0, 0), (1, 1), (2, 2)] (2, 2)"
    by (simp add: in_3inRow_def plausible_matches_def)
  have p: "step (player1 place_state) = ''Setup''" "gui_to_move place_state = ''X''"
    "player1tokens place_state = 7" "poses (player1 place_state) = [(0, 0), (1, 1)]"
    by (simp_all add: place_state_def)
  have m: "step (player1 move_state) = ''Move''" "gui_to_move move_state = ''X''"
    "picked (player1 move_state) = Some (2, 3)"
    "poses (player1 move_state) = [(0, 0), (1, 1), (2, 3)]"
    by (simp_all add: move_state_def)
  show ?thesis
    using C8_human_mill_keeps_turn [where g = place_state and p = "(2, 2)" and rs = "[]"]
      C8_human_mill_keeps_turn [where g = move_state and p = "(2, 2)" and rs = "[]"
        and start = "(2, 3)"
        and gm = "move_state\<lparr>btn_text := (btn_text move_state)((2, 2) := ''X'', (2, 3) := [])\<rparr>"]
      move_state_move
    by (simp add: r p m)
qed

section \<open>Alpha-beta pruning against minimax\<close>

lemma MInf_least [simp]: "MInf \<le> x"
  by simp

lemma PInf_greatest [simp]: "x \<le> PInf"
  by (cases x) simp_all

lemma ext_less_simps [simp]:
  "MInf < Fin a" "Fin a < PInf" "MInf < PInf" "\<not> x < MInf" "\<not> PInf < x"
  "(Fin a < Fin b) = (a < b)"
  by (cases x; auto simp add: less_ext_def)+

lemma max_MInf [simp]: "max MInf x = x" "max x MInf = x"
  by (simp_all add: max_def) (cases x; simp)

lemma min_PInf [simp]: "min PInf x = x" "min x PInf = x"
  by (simp_all add: min_def) (cases x; simp)

lemma foldl_max_ge: "(v::ext) \<le> foldl max v xs"
  by (induction xs arbitrary: v) (auto intro: order_trans [OF max.cobounded1])

lemma foldl_min_le: "foldl min (v::ext) xs \<le> v"
  by (induction xs arbitrary: v) (auto intro: order_trans [OF _ min.cobounded1])

lemma max_loop_val:
  "(\<And>a. a \<in> set as \<Longrightarrow> f a = ret (mv a)) \<Longrightarrow>
   max_loop f as v = ret (foldl max v (map mv as))"
  by (induction as arbitrary: v) simp_all

lemma min_loop_val:
  "(\<And>a. a \<in> set as \<Longrightarrow> f a = ret (mv a)) \<Longrightarrow>
   min_loop f as v = ret (foldl min v (map mv as))"
  by (induction as arbitrary: v) simp_all

lemma ab_max_loop_bounds:
  assumes "\<And>a al be. a \<in> set as \<Longrightarrow> al < be \<Longrightarrow>
             \<exists>w. f a al be = ret w \<and> bounds_exact al be (mv a) w"
    and "alpha0 < beta" and "v < beta" and "alpha = max alpha0 v"
    and "v \<le> alpha0 \<longrightarrow> M \<le> v" and "alpha0 < v \<longrightarrow> v = M"
  shows "\<exists>r. ab_max_loop f as alpha beta v = ret r \<and>
             bounds_exact alpha0 beta (foldl max M (map mv as)) r"
  using assms
proof (induction as arbitrary: alpha v M)
  case Nil
  then show ?case
    by (auto simp add: bounds_exact_def)
next
  case (Cons a as)
  have ab: "alpha < beta"
    using Cons.prems(2,3,4) by simp
  from Cons.prems(1) [of a alpha beta] ab
  obtain w where w: "f a alpha beta = ret w" "bounds_exact alpha beta (mv a) w"
    by auto
  show ?case
  proof (cases "beta \<le> max v w")
    case True
    then have vw: "max v w = w" "beta \<le> w"
      using Cons.prems(3) by (auto simp add: max_def split: if_splits)
    with w(2) have "w \<le> mv a"
      by (simp add: bounds_exact_def)
    also have "mv a \<le> max M (mv a)"
      by simp
    also have "\<dots> \<le> foldl max (max M (mv a)) (map mv as)"
      by (rule foldl_max_ge)
    finally have "w \<le> foldl max (max M (mv a)) (map mv as)" .
    with True vw Cons.prems(2) show ?thesis
      by (auto simp add: w(1) bounds_exact_def)
  next
    case False
    have step: "\<exists>r. ab_max_loop f as (max alpha (max v w)) beta (max v w) = ret r \<and>
        bounds_exact alpha0 beta (foldl max (max M (mv a)) (map mv as)) r"
    proof (rule Cons.IH)
      show "\<And>a al be. a \<in> set as \<Longrightarrow> al < be \<Longrightarrow>
             \<exists>w. f a al be = ret w \<and> bounds_exact al be (mv a) w"
        using Cons.prems(1) by simp
      show "alpha0 < beta" by (rule Cons.prems(2))
      show "max v w < beta" using False by (simp add: linorder_not_le)
      show "max alpha (max v w) = max alpha0 (max v w)"
        using Cons.prems(4) by (simp add: max.assoc [symmetric])
      show "max v w \<le> alpha0 \<longrightarrow> max M (mv a) \<le> max v w"
        using Cons.prems(4,5,6) w(2) ab
        by (auto simp add: bounds_exact_def max_def split: if_splits)
      show "alpha0 < max v w \<longrightarrow> max v w = max M (mv a)"
        using Cons.prems(4,5,6) w(2) ab False
        by (auto simp add: bounds_exact_def max_def split: if_splits)
    qed
    with False show ?thesis
      by (simp add: w(1))
  qed
qed

lemma ab_min_loop_bounds:
  assumes "\<And>a al be. a \<in> set as \<Longrightarrow> al < be \<Longrightarrow>
             \<exists>w. f a al be = ret w \<and> bounds_exact al be (mv a) w"
    and "alpha < beta0" and "alpha < v" and "beta = min beta0 v"
    and "beta0 \<le> v \<longrightarrow> v \<le> M" and "v < beta0 \<longrightarrow> v = M"
  shows "\<exists>r. ab_min_loop f as alpha beta v = ret r \<and>
             bounds_exact alpha beta0 (foldl min M (map mv as)) r"
  using assms
proof (induction as arbitrary: beta v M)
  case Nil
  then show ?case
    by (auto simp add: bounds_exact_def)
next
  case (Cons a as)
  have ab: "alpha < beta"
    using Cons.prems(2,3,4) by simp
  from Cons.prems(1) [of a alpha beta] ab
  obtain w where w: "f a alpha beta = ret w" "bounds_exact alpha beta (mv a) w"
    by auto
  show ?case
  proof (cases "min v w \<le> alpha")
    case True
    then have vw: "min v w = w" "w \<le> alpha"
      using Cons.prems(3) by (auto simp add: min_def split: if_splits)
    have "foldl min (min M (mv a)) (map mv as) \<le> min M (mv a)"
      by (rule foldl_min_le)
    also have "\<dots> \<le> mv a"
      by simp
    also have "mv a \<le> w"
      using vw w(2) by (simp add: bounds_exact_def)
    finally have "foldl min (min M (mv a)) (map mv as) \<le> w" .
    with True vw Cons.prems(2) show ?thesis
      by (auto simp add: w(1) bounds_exact_def)
  next
    case False
    have step: "\<exists>r. ab_min_loop f as alpha (min beta (min v w)) (min v w) = ret r \<and>
        bounds_exact alpha beta0 (foldl min (min M (mv a)) (map mv as)) r"
    proof (rule Cons.IH)
      show "\<And>a al be. a \<in> set as \<Longrightarrow> al < be \<Longrightarrow>
             \<exists>w. f a al be = ret w \<and> bounds_exact al be (mv a) w"
        using Cons.prems(1) by simp
      show "alpha < beta0" by (rule Cons.prems(2))
      show "alpha < min v w" using False by (simp add: linorder_not_le)
      show "min beta (min v w) = min beta0 (min v w)"
        using Cons.prems(4) by (simp add: min.assoc [symmetric])
      show "beta0 \<le> min v w \<longrightarrow> min v w \<le> min M (mv a)"
        using Cons.prems(4,5,6) w(2) ab
        by (auto simp add: bounds_exact_def min_def split: if_splits)
      show "min v w < beta0 \<longrightarrow> min v w = min M (mv a)"
        using Cons.prems(4,5,6) w(2) ab False
        by (auto simp add: bounds_exact_def min_def split: if_splits)
    qed
    with False show ?thesis
      by (simp add: w(1))
  qed
qed

lemma bounds_exact_refl: "bounds_exact alpha beta m m"
  by (simp add: bounds_exact_def)

lemma within_children:
  assumes "game_tree_within g (Suc n) s" "\<not> terminal_test g s" "a \<in> set (actions g s)"
  shows "\<exists>s'. result g s a = ret s' \<and> game_tree_within g n s'"
proof -
  from assms have c: "(case result g s a of
                         Some (Inr s') \<Rightarrow> game_tree_within g n s'
                       | _ \<Rightarrow> False)"
    by (simp add: list_all_iff)
  show ?thesis
  proof (cases "result g s a")
    case None
    with c show ?thesis by simp
  next
    case (Some r)
    with c show ?thesis
      by (cases r) (simp_all add: ret_def)
  qed
qed

lemma alpha_beta_bounds:
  "game_tree_within g n s \<Longrightarrow>
   (\<exists>m. minmax_max_value g p n s = ret m \<and>
      (\<forall>al be. al < be \<longrightarrow>
         (\<exists>v. alpha_beta_max_value g p n s al be = ret v \<and> bounds_exact al be m v))) \<and>
   (\<exists>m. minmax_min_value g p n s = ret m \<and>
      (\<forall>al be. al < be \<longrightarrow>
         (\<exists>v. alpha_beta_min_value g p n s al be = ret v \<and> bounds_exact al be m v)))"
proof (induction n arbitrary: s)
  case 0
  then show ?case
    by (auto simp add: bounds_exact_refl ret_def)
next
  case (Suc n)
  show ?case
  proof (cases "terminal_test g s")
    case True
    then show ?thesis
      by (auto simp add: bounds_exact_refl ret_def)
  next
    case False
    define mvmin where
      "mvmin a = (case bind (result g s a) (minmax_min_value g p n) of
                    Some (Inr m) \<Rightarrow> m | _ \<Rightarrow> MInf)" for a
    define mvmax where
      "mvmax a = (case bind (result g s a) (minmax_max_value g p n) of
                    Some (Inr m) \<Rightarrow> m | _ \<Rightarrow> MInf)" for a
    have child: "\<exists>s'. result g s a = ret s' \<and> game_tree_within g n s'"
      if "a \<in> set (actions g s)" for a
      using within_children [OF Suc.prems False that] .
    have kmin: "bind (result g s a) (minmax_min_value g p n) = ret (mvmin a)"
      if "a \<in> set (actions g s)" for a
    proof -
      from child [OF that] obtain s' where s': "result g s a = ret s'" "game_tree_within g n s'"
        by auto
      from Suc.IH [OF s'(2)] obtain m where "minmax_min_value g p n s' = ret m"
        by auto
      then show ?thesis
        by (simp add: mvmin_def s'(1) ret_def)
    qed
    have kmax: "bind (result g s a) (minmax_max_value g p n) = ret (mvmax a)"
      if "a \<in> set (actions g s)" for a
    proof -
      from child [OF that] obtain s' where s': "result g s a = ret s'" "game_tree_within g n s'"
        by auto
      from Suc.IH [OF s'(2)] obtain m where "minmax_max_value g p n s' = ret m"
        by auto
      then show ?thesis
        by (simp add: mvmax_def s'(1) ret_def)
    qed
    have abmin: "\<exists>w. bind (result g s a) (\<lambda>s'. alpha_beta_min_value g p n s' al be) = ret w \<and>
        bounds_exact al be (mvmin a) w"
      if "a \<in> set (actions g s)" "al < be" for a al be
    proof -
      from child [OF that(1)] obtain s' where s': "result g s a = ret s'" "game_tree_within g n s'"
        by auto
      from Suc.IH [OF s'(2)] obtain m where m: "minmax_min_value g p n s' = ret m"
        "\<forall>al be. al < be \<longrightarrow>
           (\<exists>v. alpha_beta_min_value g p n s' al be = ret v \<and> bounds_exact al be m v)"
        by auto
      have "mvmin a = m"
        by (simp add: mvmin_def s'(1) m(1)) (simp add: ret_def)
      with m(2) that(2) show ?thesis
        by (simp add: s'(1))
    qed
    have abmax: "\<exists>w. bind (result g s a) (\<lambda>s'. alpha_beta_max_value g p n s' al be) = ret w \<and>
        bounds_exact al be (mvmax a) w"
      if "a \<in> set (actions g s)" "al < be" for a al be
    proof -
      from child [OF that(1)] obtain s' where s': "result g s a = ret s'" "game_tree_within g n s'"
        by auto
      from Suc.IH [OF s'(2)] obtain m where m: "minmax_max_value g p n s' = ret m"
        "\<forall>al be. al < be \<longrightarrow>
           (\<exists>v. alpha_beta_max_value g p n s' al be = ret v \<and> bounds_exact al be m v)"
        by auto
      have "mvmax a = m"
        by (simp add: mvmax_def s'(1) m(1)) (simp add: ret_def)
      with m(2) that(2) show ?thesis
        by (simp add: s'(1))
    qed
    have A: "minmax_max_value g p (Suc n) s = ret (foldl max MInf (map mvmin (actions g s)))"
      using False by (simp add: max_loop_val [of _ _ mvmin, OF kmin])
    have B: "minmax_min_value g p (Suc n) s = ret (foldl min PInf (map mvmax (actions g s)))"
      using False by (simp add: min_loop_val [of _ _ mvmax, OF kmax])
    have C: "\<exists>v. alpha_beta_max_value g p (Suc n) s al be = ret v \<and>
        bounds_exact al be (foldl max MInf (map mvmin (actions g s))) v"
      if "al < be" for al be
    proof -
      have "MInf < be"
        using that by (cases be) (auto simp add: less_ext_def)
      have "\<exists>r. ab_max_loop
              (\<lambda>a al be. bind (result g s a) (\<lambda>s'. alpha_beta_min_value g p n s' al be))
              (actions g s) al be MInf = ret r \<and>
            bounds_exact al be (foldl max MInf (map mvmin (actions g s))) r"
        by (rule ab_max_loop_bounds [where mv = mvmin and ?alpha0.0 = al])
          (use abmin that \<open>MInf < be\<close> in auto)
      with False show ?thesis
        by simp
    qed
    have D: "\<exists>v. alpha_beta_min_value g p (Suc n) s al be = ret v \<and>
        bounds_exact al be (foldl min PInf (map mvmax (actions g s))) v"
      if "al < be" for al be
    proof -
      have "al < PInf"
        using that by (cases al) (auto simp add: less_ext_def)
      have "\<exists>r. ab_min_loop
              (\<lambda>a al be. bind (result g s a) (\<lambda>s'. alpha_beta_max_value g p n s' al be))
              (actions g s) al be PInf = ret r \<and>
            bounds_exact al be (foldl min PInf (map mvmax (actions g s))) r"
        by (rule ab_min_loop_bounds [where mv = mvmax and ?beta0.0 = be])
          (use abmax that \<open>al < PInf\<close> in auto)
      with False show ?thesis
        by simp
    qed
    from A B C D show ?thesis
      by blast
  qed
qed

lemma max_Fin: "max (Fin a) (Fin b) = Fin (max a b)"
  by (simp add: max_def)

lemma min_Fin: "min (Fin a) (Fin b) = Fin (min a b)"
  by (simp add: min_def)

lemma max_loop_Fin:
  "(\<And>a. a \<in> set as \<Longrightarrow> \<exists>u. f a = ret (Fin u)) \<Longrightarrow> \<exists>u. max_loop f as (Fin v) = ret (Fin u)"
proof (induction as arbitrary: v)
  case Nil
  then show ?case by simp
next
  case (Cons a as)
  from Cons.prems [of a] obtain u where u: "f a = ret (Fin u)"
    by auto
  have "\<exists>u'. max_loop f as (Fin (max v u)) = ret (Fin u')"
    by (rule Cons.IH) (simp add: Cons.prems)
  then show ?case
    by (simp add: u max_Fin)
qed

lemma min_loop_Fin:
  "(\<And>a. a \<in> set as \<Longrightarrow> \<exists>u. f a = ret (Fin u)) \<Longrightarrow> \<exists>u. min_loop f as (Fin v) = ret (Fin u)"
proof (induction as arbitrary: v)
  case Nil
  then show ?case by simp
next
  case (Cons a as)
  from Cons.prems [of a] obtain u where u: "f a = ret (Fin u)"
    by auto
  have "\<exists>u'. min_loop f as (Fin (min v u)) = ret (Fin u')"
    by (rule Cons.IH) (simp add: Cons.prems)
  then show ?case
    by (simp add: u min_Fin)
qed

lemma minmax_values_finite:
  assumes contract: "\<And>s. actions g s = [] \<Longrightarrow> terminal_test g s"
  shows "game_tree_within g n s \<Longrightarrow>
    (\<exists>u. minmax_max_value g p n s = ret (Fin u)) \<and>
    (\<exists>u. minmax_min_value g p n s = ret (Fin u))"
proof (induction n arbitrary: s)
  case 0
  then show ?case by simp
next
  case (Suc n)
  show ?case
  proof (cases "terminal_test g s")
    case True
    then show ?thesis by simp
  next
    case False
    with contract obtain a as where as: "actions g s = a # as"
      by (cases "actions g s") auto
    have kmin: "\<exists>u. bind (result g s b) (minmax_min_value g p n) = ret (Fin u)"
      if "b \<in> set (actions g s)" for b
    proof -
      from within_children [OF Suc.prems False that]
      obtain s' where s': "result g s b = ret s'" "game_tree_within g n s'"
        by auto
      with Suc.IH [OF s'(2)] show ?thesis
        by simp
    qed
    have kmax: "\<exists>u. bind (result g s b) (minmax_max_value g p n) = ret (Fin u)"
      if "b \<in> set (actions g s)" for b
    proof -
      from within_children [OF Suc.prems False that]
      obtain s' where s': "result g s b = ret s'" "game_tree_within g n s'"
        by auto
      with Suc.IH [OF s'(2)] show ?thesis
        by simp
    qed
    from kmin [of a] obtain u where u: "bind (result g s a) (minmax_min_value g p n) = ret (Fin u)"
      by (auto simp add: as)
    from kmax [of a] obtain w where w: "bind (result g s a) (minmax_max_value g p n) = ret (Fin w)"
      by (auto simp add: as)
    have "\<exists>u'. max_loop (\<lambda>a. bind (result g s a) (minmax_min_value g p n)) as (Fin u) = ret (Fin u')"
      by (rule max_loop_Fin) (simp add: kmin as)
    moreover
    have "\<exists>u'. min_loop (\<lambda>a. bind (result g s a) (minmax_max_value g p n)) as (Fin w) = ret (Fin u')"
      by (rule min_loop_Fin) (simp add: kmax as)
    ultimately show ?thesis
      using False by (simp add: as u w)
  qed
qed

lemma within_Suc: "game_tree_within g n s \<Longrightarrow> game_tree_within g (Suc n) s"
proof (induction n arbitrary: s)
  case 0
  then show ?case by simp
next
  case (Suc n)
  show ?case
  proof (cases "terminal_test g s")
    case True
    then show ?thesis by simp
  next
    case False
    have "case result g s a of Some (Inr s') \<Rightarrow> game_tree_within g (Suc n) s' | _ \<Rightarrow> False"
      if "a \<in> set (actions g s)" for a
    proof -
      from within_children [OF Suc.prems False that]
      obtain s' where s': "result g s a = ret s'" "game_tree_within g n s'"
        by auto
      from Suc.IH [OF s'(2)] s'(1) show ?thesis
        by (simp add: ret_def)
    qed
    then show ?thesis
      by (simp add: list_all_iff)
  qed
qed

lemma within_mono: "game_tree_within g n s \<Longrightarrow> n \<le> m \<Longrightarrow> game_tree_within g m s"
  by (induction m) (auto simp add: le_Suc_eq within_Suc simp del: game_tree_within.simps)

lemma bounds_exact_top_above:
  assumes "bounds_exact al PInf (Fin u) v" "al < Fin u"
  shows "v = Fin u"
proof -
  have "\<not> v \<le> al"
    using assms by (auto simp add: bounds_exact_def)
  then have "al < v" by simp
  show ?thesis
  proof (cases "v < PInf")
    case True
    with \<open>al < v\<close> assms(1) show ?thesis by (simp add: bounds_exact_def)
  next
    case False
    then have "PInf \<le> v" by simp
    with assms(1) have "v \<le> Fin u" by (simp add: bounds_exact_def)
    with \<open>PInf \<le> v\<close> have "PInf \<le> Fin u" by (rule order_trans)
    then show ?thesis by simp
  qed
qed

lemma bounds_exact_top_below:
  assumes "bounds_exact al PInf (Fin u) v" "Fin u \<le> al"
  shows "v \<le> al"
proof (rule ccontr)
  assume "\<not> v \<le> al"
  then have "al < v" by simp
  show False
  proof (cases "v < PInf")
    case True
    with \<open>al < v\<close> assms(1) have "v = Fin u" by (simp add: bounds_exact_def)
    with \<open>al < v\<close> assms(2) show False by simp
  next
    case False
    then have "PInf \<le> v" by simp
    with assms(1) have "v \<le> Fin u" by (simp add: bounds_exact_def)
    with \<open>PInf \<le> v\<close> have "PInf \<le> Fin u" by (rule order_trans)
    then show False by simp
  qed
qed

lemma root_loops_agree:
  assumes "\<And>a. a \<in> set as \<Longrightarrow>
     \<exists>u. key a = ret (Fin u) \<and>
         (\<forall>al. al < PInf \<longrightarrow> (\<exists>v. f a al = ret v \<and> bounds_exact al PInf (Fin u) v))"
  shows "\<exists>b. max_key_loop (\<lambda>k bk. bk < k) key as best (Fin bs) = ret b \<and>
             ab_root_loop f as (Fin bs) (Some best) = ret (Some b) \<and>
             b \<in> insert best (set as)"
  using assms
proof (induction as arbitrary: best bs)
  case Nil
  show ?case by simp
next
  case (Cons a as)
  from Cons.prems [of a] obtain u where u: "key a = ret (Fin u)"
    and all: "\<forall>al. al < PInf \<longrightarrow> (\<exists>v. f a al = ret v \<and> bounds_exact al PInf (Fin u) v)"
    by auto
  from all have "\<exists>v. f a (Fin bs) = ret v \<and> bounds_exact (Fin bs) PInf (Fin u) v"
    by simp
  then obtain v where v: "f a (Fin bs) = ret v" "bounds_exact (Fin bs) PInf (Fin u) v"
    by auto
  have rest: "\<And>a. a \<in> set as \<Longrightarrow>
     \<exists>u. key a = ret (Fin u) \<and>
         (\<forall>al. al < PInf \<longrightarrow> (\<exists>v. f a al = ret v \<and> bounds_exact al PInf (Fin u) v))"
    using Cons.prems by simp
  show ?case
  proof (cases "bs < u")
    case True
    then have "v = Fin u"
      using bounds_exact_top_above [OF v(2)] by simp
    with True Cons.IH [OF rest, of a u] show ?thesis
      by (auto simp add: u v(1))
  next
    case False
    then have "v \<le> Fin bs"
      using bounds_exact_top_below [OF v(2)] by simp
    then have "\<not> Fin bs < v" by simp
    with False Cons.IH [OF rest, of best bs] show ?thesis
      by (auto simp add: u v(1))
  qed
qed

lemma max_key_loop_best:
  assumes "\<And>a. a \<in> set as \<Longrightarrow> key a = ret (kv a)"
  shows "\<exists>b. max_key_loop (\<lambda>k bk. bk < k) key as best (bk::ext) = ret b \<and>
             (b = best \<and> (\<forall>a\<in>set as. kv a \<le> bk) \<or>
              b \<in> set as \<and> bk \<le> kv b \<and> (\<forall>a\<in>set as. kv a \<le> kv b))"
  using assms
proof (induction as arbitrary: best bk)
  case Nil
  show ?case by simp
next
  case (Cons a as)
  have ka: "key a = ret (kv a)"
    using Cons.prems by simp
  have rest: "\<And>a. a \<in> set as \<Longrightarrow> key a = ret (kv a)"
    using Cons.prems by simp
  show ?case
  proof (cases "bk < kv a")
    case True
    from Cons.IH [OF rest, of a "kv a"] True show ?thesis
      by (auto simp add: ka)
  next
    case False
    from Cons.IH [OF rest, of best bk] False show ?thesis
      by (auto simp add: ka)
  qed
qed

text \<open>
  Claim C4: for a game in which a state without actions is terminal, a state that is not
  terminal and whose game tree is finite (of depth at most the fuel plus one), both
  searches return, and \<open>alpha_beta_search\<close> returns the very action \<open>minmax_decision\<close>
  returns. That action is one of the state's actions and no action of the state has a
  greater minimax value: pruning never makes the choice worse.
\<close>

theorem C4_alpha_beta_agrees_with_minmax:
  assumes contract: "\<forall>s. actions g s = [] \<longrightarrow> terminal_test g s"
    and finite: "game_tree_within g n s" "n \<le> Suc fuel"
    and open_state: "\<not> terminal_test g s"
  shows "\<exists>a. minmax_decision g fuel s = Some (Inr a) \<and>
             alpha_beta_search g fuel s = Some (Inr (Some a)) \<and>
             a \<in> set (actions g s) \<and>
             (\<exists>m. minimax_action_value g fuel s a = Some (Inr m) \<and>
                  (\<forall>b \<in> set (actions g s).
                     \<exists>k. minimax_action_value g fuel s b = Some (Inr k) \<and> k \<le> m))"
proof -
  define p where "p = to_move g s"
  define key where "key a = bind (result g s a) (minmax_min_value g p fuel)" for a
  define f where
    "f a al = bind (result g s a) (\<lambda>s'. alpha_beta_min_value g p fuel s' al PInf)" for a al
  define kv where "kv a = (case key a of Some (Inr m) \<Rightarrow> m | _ \<Rightarrow> MInf)" for a
  have c: "\<And>s. actions g s = [] \<Longrightarrow> terminal_test g s"
    using contract by simp
  have w: "game_tree_within g (Suc fuel) s"
    using finite by (rule within_mono)
  obtain a1 as where acts: "actions g s = a1 # as"
    using c [of s] open_state by (cases "actions g s") auto
  have child: "\<exists>u. key b = ret (Fin u) \<and>
      (\<forall>al. al < PInf \<longrightarrow> (\<exists>v. f b al = ret v \<and> bounds_exact al PInf (Fin u) v))"
    if "b \<in> set (actions g s)" for b
  proof -
    from within_children [OF w open_state that]
    obtain s' where s': "result g s b = ret s'" "game_tree_within g fuel s'"
      by auto
    from minmax_values_finite [OF c s'(2), of p]
    obtain u where u: "minmax_min_value g p fuel s' = ret (Fin u)"
      by auto
    from alpha_beta_bounds [OF s'(2), of p] u
    have "\<forall>al be. al < be \<longrightarrow>
        (\<exists>v. alpha_beta_min_value g p fuel s' al be = ret v \<and> bounds_exact al be (Fin u) v)"
      by auto
    then show ?thesis
      by (simp add: key_def f_def s'(1) u)
  qed
  have kvs: "key b = ret (kv b)" if "b \<in> set (actions g s)" for b
    using child [OF that] by (auto simp add: kv_def) (simp add: ret_def)
  from child [of a1] obtain u1 where u1: "key a1 = ret (Fin u1)"
    and b1: "\<forall>al. al < PInf \<longrightarrow> (\<exists>v. f a1 al = ret v \<and> bounds_exact al PInf (Fin u1) v)"
    by (auto simp add: acts)
  from b1 have "\<exists>v. f a1 MInf = ret v \<and> bounds_exact MInf PInf (Fin u1) v"
    by simp
  then obtain v1 where v1: "f a1 MInf = ret v1" "bounds_exact MInf PInf (Fin u1) v1"
    by auto
  have v1': "v1 = Fin u1"
    using bounds_exact_top_above [OF v1(2)] by simp
  have rest: "\<exists>u. key b = ret (Fin u) \<and>
      (\<forall>al. al < PInf \<longrightarrow> (\<exists>v. f b al = ret v \<and> bounds_exact al PInf (Fin u) v))"
    if "b \<in> set as" for b
    using child [of b] that by (simp add: acts)
  from root_loops_agree [of as key f a1 u1, OF rest]
  obtain b where b: "max_key_loop (\<lambda>k bk. bk < k) key as a1 (Fin u1) = ret b"
    "ab_root_loop f as (Fin u1) (Some a1) = ret (Some b)" "b \<in> insert a1 (set as)"
    by auto
  have mm: "minmax_decision g fuel s = ret b"
    by (simp add: minmax_decision_def py_max_key_def acts p_def [symmetric] key_def [symmetric]
        u1 b(1))
  have "ab_root_loop f (a1 # as) MInf None = ret (Some b)"
    by (simp add: v1(1) v1' b(2))
  moreover have "(\<lambda>a best_score. bind (result g s a)
      (\<lambda>s'. alpha_beta_min_value g p fuel s' best_score PInf)) = f"
    by (simp add: f_def fun_eq_iff)
  ultimately have ab: "alpha_beta_search g fuel s = ret (Some b)"
    by (simp add: alpha_beta_search_def acts p_def [symmetric] del: ab_root_loop.simps)
  have kvrest: "key a = ret (kv a)" if "a \<in> set as" for a
    using kvs [of a] that by (simp add: acts)
  from max_key_loop_best [of as key kv a1 "Fin u1", OF kvrest] b(1)
  have best: "b = a1 \<and> (\<forall>a\<in>set as. kv a \<le> Fin u1) \<or>
      b \<in> set as \<and> Fin u1 \<le> kv b \<and> (\<forall>a\<in>set as. kv a \<le> kv b)"
    by auto
  have kv1: "kv a1 = Fin u1"
    using kvs [of a1] u1 by (simp add: acts)
  have top: "\<forall>a \<in> set (actions g s). kv a \<le> kv b"
    using best kv1 by (auto simp add: acts)
  have val: "minimax_action_value g fuel s a = ret (kv a)" if "a \<in> set (actions g s)" for a
    using kvs [OF that] by (simp add: minimax_action_value_def key_def p_def)
  have bin: "b \<in> set (actions g s)"
    using b(3) by (simp add: acts)
  show ?thesis
  proof (intro exI [of _ b] conjI)
    show "minmax_decision g fuel s = Some (Inr b)"
      using mm by (simp add: ret_def)
    show "alpha_beta_search g fuel s = Some (Inr (Some b))"
      using ab by (simp add: ret_def)
    show "b \<in> set (actions g s)"
      by (rule bin)
    show "\<exists>m. minimax_action_value g fuel s b = Some (Inr m) \<and>
        (\<forall>b\<in>set (actions g s). \<exists>k. minimax_action_value g fuel s b = Some (Inr k) \<and> k \<le> m)"
      using val [OF bin] val top by (auto simp add: ret_def)
  qed
qed

lemma take_game_contract: "\<forall>s. actions take_game s = [] \<longrightarrow> terminal_test take_game s"
  by (auto simp add: take_game_def split: if_splits)

lemma take_game_within: "game_tree_within take_game 2 (''X'', 2)"
  by (simp add: numeral_2_eq_2 take_game_def ret_def)

lemma take_game_minmax: "minmax_decision take_game 1 (''X'', 2) = Some (Inr 2)"
  by (simp add: minmax_decision_def py_max_key_def take_game_def ret_def)

theorem C4_alpha_beta_agrees_with_minmax_witness:
  "game_tree_within take_game 2 (''X'', 2) \<and>
   minmax_decision take_game 1 (''X'', 2) = Some (Inr 2) \<and>
   alpha_beta_search take_game 1 (''X'', 2) = Some (Inr (Some 2))"
proof -
  have nt: "\<not> terminal_test take_game (''X'', 2)"
    by (simp add: take_game_def)
  have le: "(2::nat) \<le> Suc 1"
    by simp
  from C4_alpha_beta_agrees_with_minmax [OF take_game_contract take_game_within le nt]
  obtain a where "minmax_decision take_game 1 (''X'', 2) = Some (Inr a)"
    "alpha_beta_search take_game 1 (''X'', 2) = Some (Inr (Some a))"
    by blast
  with take_game_minmax take_game_within show ?thesis
    by simp
qed

end
